theory Spec2Isabelle
  imports Main "HOL-Library.Word" "HOL-Library.Sublist"
begin

unbundle bit_operations_syntax

chapter \<open>Superposition: session persistence and transport stack\<close>

section \<open>Definitions\<close>

subsection \<open>Bytes\<close>

type_synonym byte = "8 word"

text \<open>Go's \<^verbatim>\<open>[]byte(s)\<close> for an ASCII string constant.\<close>

definition bytes_of :: "string \<Rightarrow> byte list" where
  "bytes_of s = map of_char s"

text \<open>Go's \<^verbatim>\<open>string(b)\<close>: the same bytes as a string.\<close>

definition string_of_bytes :: "byte list \<Rightarrow> string" where
  "string_of_bytes bs = map (\<lambda>b. char_of (unat b)) bs"

subsection \<open>Framed stream codec (internal/shepherd/protocol.go)\<close>

definition frameControl :: byte where "frameControl = 0x01"
definition frameInput :: byte where "frameInput = 0x03"

datatype frame_error =
    EOF
  | ErrUnexpectedEOF
  | EmptyFrame
  | FrameTooLarge nat
  | WriteLengthFailed
  | WriteFrameTypeFailed
  | WritePayloadFailed
  | DataPayloadTooShort
  | DataPayloadTooShortForID

text \<open>\<^verbatim>\<open>binary.BigEndian.PutUint32\<close> and \<^verbatim>\<open>binary.BigEndian.Uint32\<close>, which
  \<^verbatim>\<open>binary.Write\<close> and \<^verbatim>\<open>binary.Read\<close> use for a \<^verbatim>\<open>uint32\<close>.\<close>

definition PutUint32 :: "32 word \<Rightarrow> byte list" where
  "PutUint32 v = [ucast (drop_bit 24 v), ucast (drop_bit 16 v), ucast (drop_bit 8 v), ucast v]"

definition Uint32 :: "byte list \<Rightarrow> 32 word" where
  "Uint32 b = ucast (b ! 3) OR push_bit 8 (ucast (b ! 2)) OR push_bit 16 (ucast (b ! 1))
     OR push_bit 24 (ucast (b ! 0))"

text \<open>An \<^verbatim>\<open>io.Writer\<close> is a function from the bytes to write and the state of the sink to
  the new state, or \<open>None\<close> when the write fails. \<open>buffer_Write\<close> is the writer that
  appends to an in-memory byte stream and never fails.\<close>

type_synonym 'w writer = "byte list \<Rightarrow> 'w \<Rightarrow> 'w option"

definition buffer_Write :: "byte list writer" where
  "buffer_Write p buf = Some (buf @ p)"

definition writeFrame :: "'w writer \<Rightarrow> 'w \<Rightarrow> byte \<Rightarrow> byte list \<Rightarrow> frame_error + 'w" where
  "writeFrame wr w frameType payload =
     (let length32 = (of_nat (1 + length payload) :: 32 word) in
      case wr (PutUint32 length32) w of
        None \<Rightarrow> Inl WriteLengthFailed
      | Some w1 \<Rightarrow>
          (case wr [frameType] w1 of
             None \<Rightarrow> Inl WriteFrameTypeFailed
           | Some w2 \<Rightarrow>
               (case wr payload w2 of
                  None \<Rightarrow> Inl WritePayloadFailed
                | Some w3 \<Rightarrow> Inr w3)))"

text \<open>The payload that \<^verbatim>\<open>writeDataFrame\<close> builds: one length byte, the session id, the
  data. \<^verbatim>\<open>byte(len(idBytes))\<close> keeps the low eight bits of the length.\<close>

definition dataFramePayload :: "byte list \<Rightarrow> byte list \<Rightarrow> byte list" where
  "dataFramePayload idBytes data = (of_nat (length idBytes) :: byte) # idBytes @ data"


text \<open>\<^verbatim>\<open>io.ReadFull\<close> on a stream whose remaining bytes are \<open>r\<close> and which then ends:
  the \<open>n\<close> bytes read and the rest of the stream, \<^verbatim>\<open>io.EOF\<close> when nothing could be read,
  \<^verbatim>\<open>io.ErrUnexpectedEOF\<close> when the stream ends early.\<close>

definition ReadFull :: "byte list \<Rightarrow> nat \<Rightarrow> frame_error + (byte list \<times> byte list)" where
  "ReadFull r n =
     (if n \<le> length r then Inr (take n r, drop n r)
      else if r = [] then Inl EOF
      else Inl ErrUnexpectedEOF)"

definition readFrame :: "byte list \<Rightarrow> frame_error + (byte \<times> byte list \<times> byte list)" where
  "readFrame r =
     (case ReadFull r 4 of
        Inl e \<Rightarrow> Inl e
      | Inr (hdr, r1) \<Rightarrow>
          (let length32 = Uint32 hdr in
           if length32 = 0 then Inl EmptyFrame
           else if length32 > 10 * 1024 * 1024 then Inl (FrameTooLarge (unat length32))
           else
             (case ReadFull r1 (unat length32) of
                Inl e \<Rightarrow> Inl e
              | Inr (buf, r2) \<Rightarrow> Inr (hd buf, tl buf, r2))))"

definition parseDataPayload :: "byte list \<Rightarrow> frame_error + (byte list \<times> byte list)" where
  "parseDataPayload payload =
     (if length payload < 1 then Inl DataPayloadTooShort
      else
        (let idLen = unat (payload ! 0) in
         if length payload < 1 + idLen then Inl DataPayloadTooShortForID
         else Inr (take idLen (drop 1 payload), drop (1 + idLen) payload)))"

subsection \<open>Replay ring (session.appendReplay, shepherd.go and the pty package)\<close>

definition replayBufSize :: nat where
  "replayBufSize = 100 * 1024"

text \<open>The two session types, \<^verbatim>\<open>shepherd.session\<close> and \<^verbatim>\<open>pty.Session\<close>, have the same
  \<^verbatim>\<open>appendReplay\<close> body; it acts on the \<^verbatim>\<open>replayBuf\<close> field alone.\<close>

definition appendReplay :: "byte list \<Rightarrow> byte list \<Rightarrow> byte list" where
  "appendReplay replayBuf data =
     (let buf = replayBuf @ data in
      if length buf > replayBufSize then drop (length buf - replayBufSize) buf else buf)"

text \<open>The replay buffer of a session created by Start (\<^verbatim>\<open>replayBuf\<close> is nil) after the PTY
  reader has appended the chunks in order.\<close>

definition replayAfter :: "byte list list \<Rightarrow> byte list" where
  "replayAfter chunks = foldl appendReplay [] chunks"

subsection \<open>Buffered channels\<close>

type_synonym chunk = "byte list"

text \<open>A Go channel of chunks made with \<^verbatim>\<open>make(chan []byte, n)\<close>: its capacity, the chunks
  queued in it (oldest first), and whether it has been closed.\<close>

record chan =
  chan_cap :: nat
  chan_buf :: "chunk list"
  chan_closed :: bool

definition make_chan :: "nat \<Rightarrow> chan" where
  "make_chan n = \<lparr>chan_cap = n, chan_buf = [], chan_closed = False\<rparr>"

text \<open>The non-blocking send \<^verbatim>\<open>select { case ch <- data: default: }\<close> on an open channel:
  the chunk is queued when the buffer has room, and otherwise the default branch runs and
  the channel is left as it is.\<close>

definition try_send :: "chunk \<Rightarrow> chan \<Rightarrow> chan" where
  "try_send data ch =
     (if length (chan_buf ch) < chan_cap ch then ch\<lparr>chan_buf := chan_buf ch @ [data]\<rparr> else ch)"

text \<open>A consumer's receive \<^verbatim>\<open><-ch\<close> when a chunk is queued.\<close>

definition receive :: "chan \<Rightarrow> chan" where
  "receive ch = ch\<lparr>chan_buf := tl (chan_buf ch)\<rparr>"

subsection \<open>PTY session (shepherd.session and pty.Session)\<close>

text \<open>The two session types have the same fields and the same \<^verbatim>\<open>appendReplay\<close>,
  \<^verbatim>\<open>subscribe\<close> and \<^verbatim>\<open>broadcast\<close>. Channels are heap objects: \<open>chans\<close> holds every
  channel that \<^verbatim>\<open>subscribe\<close> has made, \<open>subscribers\<close> the keys of the
  \<^verbatim>\<open>subscribers\<close> map, and \<open>chan_count\<close> names the next channel to make.
  \<open>sigterm_sent\<close> and \<open>ptmx_closed\<close> record what Stop did to the child and the PTY,
  \<open>winsize\<close> the rows and columns of the PTY (40 by 120 at start).\<close>

record session =
  sess_id :: string
  stopped :: bool
  done_closed :: bool
  sigterm_sent :: bool
  ptmx_closed :: bool
  winsize :: "16 word \<times> 16 word"
  replayBuf :: "byte list"
  chans :: "nat \<rightharpoonup> chan"
  subscribers :: "nat set"
  chan_count :: nat

definition new_session :: "string \<Rightarrow> session" where
  "new_session sid =
     \<lparr>sess_id = sid, stopped = False, done_closed = False, sigterm_sent = False,
      ptmx_closed = False, winsize = (40, 120), replayBuf = [], chans = Map.empty, subscribers = {}, chan_count = 0\<rparr>"

definition session_appendReplay :: "chunk \<Rightarrow> session \<Rightarrow> session" where
  "session_appendReplay data s = s\<lparr>replayBuf := appendReplay (replayBuf s) data\<rparr>"

definition getReplay :: "session \<Rightarrow> byte list" where
  "getReplay s = replayBuf s"

definition subscribe :: "session \<Rightarrow> nat \<times> session" where
  "subscribe s =
     (let ch = chan_count s in
      (ch, s\<lparr>chans := (chans s)(ch \<mapsto> make_chan 256),
             subscribers := insert ch (subscribers s),
             chan_count := ch + 1\<rparr>))"

definition unsub :: "nat \<Rightarrow> session \<Rightarrow> session" where
  "unsub ch s = s\<lparr>subscribers := subscribers s - {ch}\<rparr>"

definition broadcast :: "chunk \<Rightarrow> session \<Rightarrow> session" where
  "broadcast data s =
     s\<lparr>chans := (\<lambda>c. if c \<in> subscribers s then map_option (try_send data) (chans s c)
                      else chans s c)\<rparr>"

text \<open>The end of the PTY reader goroutine: every subscriber channel is closed and deleted.\<close>

definition closeSubscribers :: "session \<Rightarrow> session" where
  "closeSubscribers s =
     s\<lparr>chans := (\<lambda>c. if c \<in> subscribers s
                      then map_option (\<lambda>ch. ch\<lparr>chan_closed := True\<rparr>) (chans s c)
                      else chans s c),
       subscribers := {}\<rparr>"

text \<open>The PTY reader goroutine over the results of successive \<^verbatim>\<open>ptmx.Read\<close> calls, each
  the bytes read and whether an error came with them. With no more results the reader is
  blocked in \<^verbatim>\<open>Read\<close>.\<close>

fun ptyReader :: "(chunk \<times> bool) list \<Rightarrow> session \<Rightarrow> session" where
  "ptyReader [] s = s"
| "ptyReader ((data, err) # reads) s =
     (let s1 = (if length data > 0 then broadcast data (session_appendReplay data s) else s)
      in if err then closeSubscribers s1 else ptyReader reads s1)"

text \<open>The chunks the reader has taken from the PTY: every read up to and including the
  first one that came with an error.\<close>

fun consumed :: "(chunk \<times> bool) list \<Rightarrow> chunk list" where
  "consumed [] = []"
| "consumed ((data, err) # reads) = data # (if err then [] else consumed reads)"

text \<open>What can happen to a running session between two reads: a consumer subscribes,
  unsubscribes or takes a chunk from its channel, and the reader broadcasts a chunk.\<close>

datatype session_op = Subscribe | Unsub nat | Receive nat | Output chunk

fun session_step :: "session \<Rightarrow> session_op \<Rightarrow> session" where
  "session_step s Subscribe = snd (subscribe s)"
| "session_step s (Unsub ch) = unsub ch s"
| "session_step s (Receive ch) =
     (case chans s ch of
        None \<Rightarrow> s
      | Some c \<Rightarrow> if chan_buf c = [] then s else s\<lparr>chans := (chans s)(ch \<mapsto> receive c)\<rparr>)"
| "session_step s (Output data) = broadcast data (session_appendReplay data s)"

definition session_run :: "string \<Rightarrow> session_op list \<Rightarrow> session" where
  "session_run sid ops = foldl session_step (new_session sid) ops"

text \<open>The invariant of the subscriber set: every subscriber's channel exists, is open, has
  capacity 256 and holds at most 256 chunks; every channel made so far has capacity 256.\<close>

definition subs_inv :: "session \<Rightarrow> bool" where
  "subs_inv s \<longleftrightarrow>
     (\<forall>c \<in> subscribers s. \<exists>ch. chans s c = Some ch \<and> chan_cap ch = 256
        \<and> length (chan_buf ch) \<le> 256 \<and> \<not> chan_closed ch)
     \<and> (\<forall>c ch. chans s c = Some ch \<longrightarrow> c < chan_count s \<and> chan_cap ch = 256
        \<and> length (chan_buf ch) \<le> 256)"

subsection \<open>Control messages (shepherd/protocol.go)\<close>

definition cmdStart :: string where "cmdStart = ''start''"
definition cmdStop :: string where "cmdStop = ''stop''"
definition cmdResize :: string where "cmdResize = ''resize''"
definition cmdReplay :: string where "cmdReplay = ''replay''"
definition cmdSubscribe :: string where "cmdSubscribe = ''subscribe''"
definition cmdList :: string where "cmdList = ''list''"
definition cmdPing :: string where "cmdPing = ''ping''"
definition cmdStopAll :: string where "cmdStopAll = ''stop_all''"

definition evtStarted :: string where "evtStarted = ''started''"
definition evtStopped :: string where "evtStopped = ''stopped''"
definition evtError :: string where "evtError = ''error''"
definition evtReplay :: string where "evtReplay = ''replay''"
definition evtList :: string where "evtList = ''list''"
definition evtPong :: string where "evtPong = ''pong''"
definition evtExited :: string where "evtExited = ''exited''"
definition evtStopDone :: string where "evtStopDone = ''stop_done''"

record Request =
  req_ID :: string
  req_Command :: string
  req_SessionID :: string
  req_CLIType :: string
  req_WorkDir :: string
  req_Rows :: "16 word"
  req_Cols :: "16 word"

record Response =
  resp_ID :: string
  resp_Event :: string
  resp_PID :: int
  resp_Error :: string
  resp_SessionID :: string
  resp_Data :: "byte list"
  resp_Sessions :: "string list"

text \<open>The zero values \<^verbatim>\<open>Request{}\<close> and \<^verbatim>\<open>Response{}\<close>.\<close>

definition Request0 :: Request where
  "Request0 = \<lparr>req_ID = '''', req_Command = '''', req_SessionID = '''', req_CLIType = '''',
     req_WorkDir = '''', req_Rows = 0, req_Cols = 0\<rparr>"

definition Response0 :: Response where
  "Response0 = \<lparr>resp_ID = '''', resp_Event = '''', resp_PID = 0, resp_Error = '''',
     resp_SessionID = '''', resp_Data = [], resp_Sessions = []\<rparr>"

subsection \<open>Go maps with string keys as association lists\<close>

text \<open>A map is a list of pairs with each key at most once; the order of the list stands
  for the order in which a \<^verbatim>\<open>range\<close> loop visits the entries.\<close>

definition map_delete :: "'k \<Rightarrow> ('k \<times> 'v) list \<Rightarrow> ('k \<times> 'v) list" where
  "map_delete k m = filter (\<lambda>kv. fst kv \<noteq> k) m"

definition map_put :: "'k \<Rightarrow> 'v \<Rightarrow> ('k \<times> 'v) list \<Rightarrow> ('k \<times> 'v) list" where
  "map_put k v m = (k, v) # map_delete k m"

subsection \<open>Supervisor (shepherd/shepherd.go)\<close>

text \<open>The outcome of \<^verbatim>\<open>pty.StartWithSize\<close>: the pid of the child, or the error text.\<close>

datatype spawn_result = SpawnOK int | SpawnError string

text \<open>What the supervisor does to the outside and to its sessions table, as events: a
  control message handed to a connection's \<^verbatim>\<open>writeControl\<close>, the bytes of a data frame
  written to a connection by \<^verbatim>\<open>writeDataFrame\<close>, an assignment
  \<^verbatim>\<open>s.sessions[id] = sess\<close>, a \<^verbatim>\<open>delete(s.sessions, id)\<close>, and the replacement of the
  table by an empty one in \<^verbatim>\<open>stopAll\<close>.\<close>

datatype sh_event =
    WroteControl nat Response
  | WroteData nat "byte list"
  | SessionInserted string nat
  | SessionDeleted string
  | SessionsCleared

text \<open>The supervisor: the sessions map (id to session object), the session objects, the
  connected clients (the keys of the \<^verbatim>\<open>clients\<close> map, one per connection, in the order
  a \<^verbatim>\<open>range\<close> loop visits them), the events so far in the order they happened, the
  forwarder goroutines started by Subscribe requests (connection, session id, session
  object, channel), and the input written to the PTYs.\<close>

record Shepherd =
  sh_sessions :: "(string \<times> nat) list"
  sh_heap :: "nat \<rightharpoonup> session"
  sh_next :: nat
  sh_clients :: "nat list"
  sh_log :: "sh_event list"
  sh_forwarders :: "(nat \<times> string \<times> nat \<times> nat) list"
  sh_pty_input :: "(nat \<times> byte list) list"

definition new_Shepherd :: Shepherd where
  "new_Shepherd = \<lparr>sh_sessions = [], sh_heap = Map.empty, sh_next = 0, sh_clients = [],
     sh_log = [], sh_forwarders = [], sh_pty_input = []\<rparr>"

text \<open>The control messages among some events, each with its connection, oldest first; and
  the bytes that the data frames among some events put on one connection.\<close>

fun control_of :: "sh_event \<Rightarrow> (nat \<times> Response) list" where
  "control_of (WroteControl cw msg) = [(cw, msg)]"
| "control_of (WroteData cw bytes) = []"
| "control_of (SessionInserted ident p) = []"
| "control_of (SessionDeleted ident) = []"
| "control_of SessionsCleared = []"

definition controls :: "sh_event list \<Rightarrow> (nat \<times> Response) list" where
  "controls evs = concat (map control_of evs)"

definition sh_written :: "Shepherd \<Rightarrow> (nat \<times> Response) list" where
  "sh_written sh = controls (sh_log sh)"



text \<open>\<^verbatim>\<open>handleConn\<close> registers the connection in \<^verbatim>\<open>clients\<close> and removes it when the
  connection's read loop ends.\<close>

definition client_connect :: "nat \<Rightarrow> Shepherd \<Rightarrow> Shepherd" where
  "client_connect cw sh = sh\<lparr>sh_clients := cw # removeAll cw (sh_clients sh)\<rparr>"

definition client_disconnect :: "nat \<Rightarrow> Shepherd \<Rightarrow> Shepherd" where
  "client_disconnect cw sh = sh\<lparr>sh_clients := removeAll cw (sh_clients sh)\<rparr>"

definition connWriter_writeControl :: "nat \<Rightarrow> Response \<Rightarrow> Shepherd \<Rightarrow> Shepherd" where
  "connWriter_writeControl cw msg sh = sh\<lparr>sh_log := sh_log sh @ [WroteControl cw msg]\<rparr>"


definition sendResponse :: "nat \<Rightarrow> Response \<Rightarrow> Shepherd \<Rightarrow> Shepherd" where
  "sendResponse cw resp sh = connWriter_writeControl cw resp sh"

definition update_session :: "nat \<Rightarrow> (session \<Rightarrow> session) \<Rightarrow> Shepherd \<Rightarrow> Shepherd" where
  "update_session p f sh = sh\<lparr>sh_heap := (sh_heap sh)(p := map_option f (sh_heap sh p))\<rparr>"

text \<open>The body guarded by \<^verbatim>\<open>sess.mu\<close> in \<^verbatim>\<open>handleStop\<close> and \<^verbatim>\<open>stopAll\<close>. After a
  successful start \<^verbatim>\<open>cmd.Process\<close> is not nil.\<close>

definition terminate_session :: "session \<Rightarrow> session" where
  "terminate_session sess =
     (if \<not> stopped sess then sess\<lparr>sigterm_sent := True, ptmx_closed := True\<rparr> else sess)"

definition handleStart :: "nat \<Rightarrow> Request \<Rightarrow> spawn_result \<Rightarrow> Shepherd \<Rightarrow> Shepherd" where
  "handleStart cw req spawn sh =
     (case spawn of
        SpawnError err \<Rightarrow>
          sendResponse cw (Response0\<lparr>resp_ID := req_ID req, resp_Event := evtError,
                                     resp_Error := err\<rparr>) sh
      | SpawnOK pid \<Rightarrow>
          (let p = sh_next sh;
               sh1 = sh\<lparr>sh_heap := (sh_heap sh)(p \<mapsto> new_session (req_SessionID req)),
                        sh_next := p + 1\<rparr>;
               sh2 = sh1\<lparr>sh_sessions := map_put (req_SessionID req) p (sh_sessions sh1),
                         sh_log := sh_log sh1 @ [SessionInserted (req_SessionID req) p]\<rparr>
           in sendResponse cw (Response0\<lparr>resp_ID := req_ID req, resp_Event := evtStarted,
                                          resp_SessionID := req_SessionID req,
                                          resp_PID := pid\<rparr>) sh2))"

definition broadcastExit :: "string \<Rightarrow> Shepherd \<Rightarrow> Shepherd" where
  "broadcastExit sessionID sh =
     (let resp = Response0\<lparr>resp_Event := evtExited, resp_SessionID := sessionID\<rparr>;
          clients = sh_clients sh
      in foldl (\<lambda>sh' c. connWriter_writeControl c resp sh') sh clients)"

text \<open>The exit monitor goroutine of the session object \<open>p\<close> started under \<open>sessionID\<close>, from
  the moment \<^verbatim>\<open>cmd.Wait()\<close> returns. \<open>exit_signalled\<close> is its state before the
  broadcast, \<open>exit_broadcast\<close> after the broadcast and before the delete.\<close>

definition exit_signalled :: "nat \<Rightarrow> Shepherd \<Rightarrow> Shepherd" where
  "exit_signalled p sh = update_session p (\<lambda>sess. sess\<lparr>stopped := True, done_closed := True\<rparr>) sh"

definition exit_broadcast :: "nat \<Rightarrow> string \<Rightarrow> Shepherd \<Rightarrow> Shepherd" where
  "exit_broadcast p sessionID sh = broadcastExit sessionID (exit_signalled p sh)"

definition exitMonitor :: "nat \<Rightarrow> string \<Rightarrow> Shepherd \<Rightarrow> Shepherd" where
  "exitMonitor p sessionID sh =
     (let sh1 = exit_broadcast p sessionID sh
      in sh1\<lparr>sh_sessions := map_delete sessionID (sh_sessions sh1),
             sh_log := sh_log sh1 @ [SessionDeleted sessionID]\<rparr>)"

definition handleStop :: "nat \<Rightarrow> Request \<Rightarrow> Shepherd \<Rightarrow> Shepherd" where
  "handleStop cw req sh =
     (case map_of (sh_sessions sh) (req_SessionID req) of
        None \<Rightarrow> sendResponse cw (Response0\<lparr>resp_ID := req_ID req, resp_Event := evtStopDone\<rparr>) sh
      | Some p \<Rightarrow>
          (let sh1 = sh\<lparr>sh_sessions := map_delete (req_SessionID req) (sh_sessions sh),
                        sh_log := sh_log sh @ [SessionDeleted (req_SessionID req)]\<rparr>;
               sh2 = update_session p terminate_session sh1
           in sendResponse cw (Response0\<lparr>resp_ID := req_ID req, resp_Event := evtStopDone\<rparr>) sh2))"

text \<open>\<^verbatim>\<open>pty.Setsize\<close> fails on a PTY that has been closed.\<close>

definition handleResize :: "nat \<Rightarrow> Request \<Rightarrow> Shepherd \<Rightarrow> Shepherd" where
  "handleResize cw req sh =
     (case map_of (sh_sessions sh) (req_SessionID req) of
        None \<Rightarrow>
          sendResponse cw (Response0\<lparr>resp_ID := req_ID req, resp_Event := evtError,
                                     resp_Error := ''session not found''\<rparr>) sh
      | Some p \<Rightarrow>
          (case sh_heap sh p of
             None \<Rightarrow> sh
           | Some sess \<Rightarrow>
               if ptmx_closed sess then
                 sendResponse cw (Response0\<lparr>resp_ID := req_ID req, resp_Event := evtError,
                                            resp_Error := ''setsize failed''\<rparr>) sh
               else
                 sendResponse cw (Response0\<lparr>resp_ID := req_ID req, resp_Event := ''resized''\<rparr>)
                   (update_session p (\<lambda>s. s\<lparr>winsize := (req_Rows req, req_Cols req)\<rparr>) sh)))"

definition handleReplay :: "nat \<Rightarrow> Request \<Rightarrow> Shepherd \<Rightarrow> Shepherd" where
  "handleReplay cw req sh =
     (case map_of (sh_sessions sh) (req_SessionID req) of
        None \<Rightarrow>
          sendResponse cw (Response0\<lparr>resp_ID := req_ID req, resp_Event := evtError,
                                     resp_Error := ''session not found''\<rparr>) sh
      | Some p \<Rightarrow>
          (case sh_heap sh p of
             None \<Rightarrow> sh
           | Some sess \<Rightarrow>
               sendResponse cw (Response0\<lparr>resp_ID := req_ID req, resp_Event := evtReplay,
                                          resp_SessionID := req_SessionID req,
                                          resp_Data := getReplay sess\<rparr>) sh))"

definition handleSubscribe :: "nat \<Rightarrow> Request \<Rightarrow> Shepherd \<Rightarrow> Shepherd" where
  "handleSubscribe cw req sh =
     (case map_of (sh_sessions sh) (req_SessionID req) of
        None \<Rightarrow>
          sendResponse cw (Response0\<lparr>resp_ID := req_ID req, resp_Event := evtError,
                                     resp_Error := ''session not found''\<rparr>) sh
      | Some p \<Rightarrow>
          (case sh_heap sh p of
             None \<Rightarrow> sh
           | Some sess \<Rightarrow>
               (let sh1 = sendResponse cw (Response0\<lparr>resp_ID := req_ID req,
                             resp_Event := ''subscribed'',
                             resp_SessionID := req_SessionID req\<rparr>) sh;
                    (ch, sess') = subscribe sess
                in sh1\<lparr>sh_heap := (sh_heap sh1)(p \<mapsto> sess'),
                       sh_forwarders := sh_forwarders sh1 @ [(cw, req_SessionID req, p, ch)]\<rparr>)))"





definition handleList :: "nat \<Rightarrow> Request \<Rightarrow> Shepherd \<Rightarrow> Shepherd" where
  "handleList cw req sh =
     sendResponse cw (Response0\<lparr>resp_ID := req_ID req, resp_Event := evtList,
                                resp_Sessions := map fst (sh_sessions sh)\<rparr>) sh"

definition stopAll :: "Shepherd \<Rightarrow> Shepherd" where
  "stopAll sh =
     (let sessions = map snd (sh_sessions sh);
          sh1 = sh\<lparr>sh_sessions := [], sh_log := sh_log sh @ [SessionsCleared]\<rparr>
      in foldl (\<lambda>sh' p. update_session p terminate_session sh') sh1 sessions)"

definition handleInput :: "byte list \<Rightarrow> Shepherd \<Rightarrow> Shepherd" where
  "handleInput payload sh =
     (case parseDataPayload payload of
        Inl err \<Rightarrow> sh
      | Inr (sessionID, data) \<Rightarrow>
          (case map_of (sh_sessions sh) (string_of_bytes sessionID) of
             None \<Rightarrow> sh
           | Some p \<Rightarrow> sh\<lparr>sh_pty_input := sh_pty_input sh @ [(p, data)]\<rparr>))"

text \<open>\<^verbatim>\<open>handleControl\<close> on a control payload that decodes to the request \<open>req\<close>; \<open>spawn\<close> is
  what starting the child would do, used by a Start request only.\<close>

definition handleControl :: "nat \<Rightarrow> Request \<Rightarrow> spawn_result \<Rightarrow> Shepherd \<Rightarrow> Shepherd" where
  "handleControl cw req spawn sh =
     (if req_Command req = cmdPing then
        sendResponse cw (Response0\<lparr>resp_ID := req_ID req, resp_Event := evtPong\<rparr>) sh
      else if req_Command req = cmdStart then handleStart cw req spawn sh
      else if req_Command req = cmdStop then handleStop cw req sh
      else if req_Command req = cmdResize then handleResize cw req sh
      else if req_Command req = cmdReplay then handleReplay cw req sh
      else if req_Command req = cmdSubscribe then handleSubscribe cw req sh
      else if req_Command req = cmdList then handleList cw req sh
      else if req_Command req = cmdStopAll then
        sendResponse cw (Response0\<lparr>resp_ID := req_ID req, resp_Event := evtStopDone\<rparr>) (stopAll sh)
      else sh)"

subsection \<open>WebSocket terminal bridge (package ws, Handler.ServeHTTP)\<close>

datatype msg_type = TextMessage | BinaryMessage | CloseMessage | PingMessage

text \<open>The four statements of \<^verbatim>\<open>ServeHTTP\<close> that call \<^verbatim>\<open>conn.WriteMessage\<close>: the replay
  send, the output pump, the ping ticker, and the close message on session end.\<close>

datatype write_site = ReplaySend | OutputPump | PingTicker | CloseSend

text \<open>What the handler does, in order: a reply through \<^verbatim>\<open>http.Error\<close>, the calls on the
  session handle and the manager, each \<^verbatim>\<open>conn.WriteMessage\<close> with its site, message
  type, bytes and whether it succeeded, the deferred \<^verbatim>\<open>unsub()\<close> and
  \<^verbatim>\<open>conn.Close()\<close>.\<close>

datatype bridge_event =
    HttpErrorReply string nat
  | CallReplay
  | WriteMessage write_site msg_type "byte list" bool
  | CallSubscribe
  | CallWrite "byte list"
  | CallResize "16 word" "16 word"
  | CallUnsub
  | ConnClose

text \<open>A message read from the browser: a binary frame, a text frame that decodes to a
  resize control, any other text frame, or a frame of another type.\<close>

datatype client_msg =
    ClientBinary "byte list"
  | ClientResize "16 word" "16 word"
  | ClientOtherText "byte list"
  | ClientOther

text \<open>What the goroutines started after the subscription meet, one step at a time: the
  subscription channel yields a chunk (and the pump's write succeeds or not) or is closed,
  the ping ticker fires (and the ping is written or not), the browser sends a message or
  the read fails, the session's done channel fires.\<close>

datatype bridge_step =
    ChunkArrives chunk bool
  | OutputChClosed
  | TickerFires bool
  | ClientSends client_msg
  | ClientReadFails
  | SessionDoneFires

record bridge_state =
  pump_running :: bool
  ping_running :: bool
  input_running :: bool
  main_waiting :: bool

text \<open>\<^verbatim>\<open>websocket.FormatCloseMessage(websocket.CloseNormalClosure, "session ended")\<close>: the
  status 1000 in two bytes, then the reason.\<close>

definition session_ended_close :: "byte list" where
  "session_ended_close = [0x03, 0xE8] @ bytes_of ''session ended''"

text \<open>One step of the goroutines. A step met by a goroutine that has returned does
  nothing.\<close>

fun bridge_step_fun :: "bridge_state \<Rightarrow> bridge_step \<Rightarrow> bridge_event list \<times> bridge_state" where
  "bridge_step_fun st (ChunkArrives data ok) =
     (if pump_running st
      then ([WriteMessage OutputPump BinaryMessage data ok], st\<lparr>pump_running := ok\<rparr>)
      else ([], st))"
| "bridge_step_fun st OutputChClosed = ([], st\<lparr>pump_running := False\<rparr>)"
| "bridge_step_fun st (TickerFires ok) =
     (if ping_running st
      then ([WriteMessage PingTicker PingMessage [] ok], st\<lparr>ping_running := ok\<rparr>)
      else ([], st))"
| "bridge_step_fun st (ClientSends m) =
     (if input_running st
      then (case m of
              ClientBinary msg \<Rightarrow> ([CallWrite msg], st)
            | ClientResize rows cols \<Rightarrow> ([CallResize rows cols], st)
            | ClientOtherText msg \<Rightarrow> ([], st)
            | ClientOther \<Rightarrow> ([], st))
      else ([], st))"
| "bridge_step_fun st ClientReadFails =
     (if input_running st
      then ([], st\<lparr>input_running := False, ping_running := False, main_waiting := False\<rparr>)
      else ([], st))"
| "bridge_step_fun st SessionDoneFires =
     (if main_waiting st
      then ([WriteMessage CloseSend CloseMessage session_ended_close True],
            st\<lparr>main_waiting := False, ping_running := False\<rparr>)
      else ([], st\<lparr>ping_running := False\<rparr>))"

text \<open>The goroutines over the steps they meet. When the main select has fired and all
  goroutines have returned, \<^verbatim>\<open>wg.Wait()\<close> returns and the deferred calls run; when the
  steps run out before that, the handler is still waiting.\<close>

fun bridge_run :: "bridge_state \<Rightarrow> bridge_step list \<Rightarrow> bridge_event list" where
  "bridge_run st [] = []"
| "bridge_run st (step # steps) =
     (let (evs, st') = bridge_step_fun st step
      in if \<not> main_waiting st' \<and> \<not> pump_running st' \<and> \<not> ping_running st' \<and> \<not> input_running st'
         then evs @ [CallUnsub, ConnClose]
         else evs @ bridge_run st' steps)"

text \<open>What one attach meets: the id in the path, whether the manager's Get finds the
  session, whether the upgrade succeeds, what \<^verbatim>\<open>sess.Replay()\<close> returns, whether the
  replay is written, and the steps after the subscription.\<close>

record attach_env =
  path_id :: string
  session_found :: bool
  upgrade_ok :: bool
  replay_bytes :: "byte list"
  replay_write_ok :: bool
  schedule :: "bridge_step list"

definition StatusBadRequest :: nat where "StatusBadRequest = 400"
definition StatusNotFound :: nat where "StatusNotFound = 404"

text \<open>The handler. \<open>keepalive\<close> tells the two versions in the repository apart: the one
  with the ping ticker, read and write deadlines and a mutex around each write, and the one
  in internal/ws/handler.go without them, which starts no ping goroutine. Deadlines and the
  mutex do not show in the events.\<close>

definition bridge_ServeHTTP :: "bool \<Rightarrow> attach_env \<Rightarrow> bridge_event list" where
  "bridge_ServeHTTP keepalive env =
     (if path_id env = '''' then [HttpErrorReply ''missing session id'' StatusBadRequest]
      else if \<not> session_found env then [HttpErrorReply ''session not found'' StatusNotFound]
      else if \<not> upgrade_ok env then []
      else
        (let replay = replay_bytes env;
             live = CallSubscribe #
               bridge_run \<lparr>pump_running = True, ping_running = keepalive, input_running = True,
                            main_waiting = True\<rparr> (schedule env)
         in if length replay > 0 then
              (if replay_write_ok env
               then CallReplay # WriteMessage ReplaySend BinaryMessage replay True # live
               else [CallReplay, WriteMessage ReplaySend BinaryMessage replay False, ConnClose])
            else CallReplay # live))"

definition ServeHTTP :: "attach_env \<Rightarrow> bridge_event list" where
  "ServeHTTP env = bridge_ServeHTTP True env"

definition ServeHTTP_plain :: "attach_env \<Rightarrow> bridge_event list" where
  "ServeHTTP_plain env = bridge_ServeHTTP False env"

subsection \<open>Supervisor client (package shepherd, Client and ProxySession)\<close>

text \<open>A lookup in a Go map gives the zero value for a missing key.\<close>

definition lookup0 :: "'v \<Rightarrow> ('k \<times> 'v) list \<Rightarrow> 'k \<Rightarrow> 'v" where
  "lookup0 zero m k = (case map_of m k of None \<Rightarrow> zero | Some v \<Rightarrow> v)"

text \<open>\<^verbatim>\<open>fmt.Sprintf("%d", n)\<close> for an unsigned number.\<close>

function decimal :: "nat \<Rightarrow> string" where
  "decimal n =
     (if n < 10 then [char_of (48 + n)]
      else decimal (n div 10) @ [char_of (48 + n mod 10)])"
  by pat_completeness auto
termination
  by (relation "measure id") auto

definition nextReqID :: "nat \<Rightarrow> string" where
  "nextReqID n = CHR ''r'' # decimal n"

datatype client_error = SendRequestFailed | ClientClosed | ShepherdError string

text \<open>The client: the connection it holds (named as the supervisor names it), whether
  writes on it fail, whether \<^verbatim>\<open>closed\<close> is closed, the control requests and input frames
  written to the connection so far, the three per-session maps, the request counter, and
  the subscriber channels the client has made. The value kept for a session in
  \<open>sessionDone\<close> is whether its done channel is closed.\<close>

record Client =
  c_conn :: nat
  c_conn_broken :: bool
  c_closed :: bool
  c_written :: "Request list"
  c_input_written :: "(byte list \<times> byte list) list"
  sessionSubs :: "(string \<times> nat list) list"
  sessionDone :: "(string \<times> bool) list"
  shepherdSubbed :: "(string \<times> bool) list"
  reqCounter :: nat
  c_chans :: "nat \<rightharpoonup> chan"
  c_chan_count :: nat

definition NewClient :: "nat \<Rightarrow> Client" where
  "NewClient conn =
     \<lparr>c_conn = conn, c_conn_broken = False, c_closed = False, c_written = [],
      c_input_written = [], sessionSubs = [], sessionDone = [], shepherdSubbed = [],
      reqCounter = 0, c_chans = Map.empty, c_chan_count = 0\<rparr>"

text \<open>A request without a Start in it spawns nothing.\<close>

definition no_spawn :: spawn_result where
  "no_spawn = SpawnError ''''"

text \<open>\<^verbatim>\<open>sendRequest\<close> over a connection on which the supervisor handles the request as soon
  as it is written: the request gets the next id and is written; the supervisor's
  \<open>handleControl\<close> runs; the response is the control message with the request's id that
  the supervisor wrote back on this connection. If the write fails the call returns the
  send error; if no response comes it waits until the client is closed.\<close>

definition sendRequest ::
  "Request \<Rightarrow> spawn_result \<Rightarrow> Client \<times> Shepherd \<Rightarrow> (client_error + Response) \<times> Client \<times> Shepherd" where
  "sendRequest req spawn cs =
     (let c = fst cs; sh = snd cs;
          n = reqCounter c + 1;
          c1 = c\<lparr>reqCounter := n\<rparr>;
          req' = req\<lparr>req_ID := nextReqID n\<rparr>
      in if c_conn_broken c1 then (Inl SendRequestFailed, c1, sh)
         else
           (let c2 = c1\<lparr>c_written := c_written c1 @ [req']\<rparr>;
                sh' = handleControl (c_conn c2) req' spawn sh
            in case filter (\<lambda>w. fst w = c_conn c2 \<and> resp_ID (snd w) = req_ID req')
                      (drop (length (sh_written sh)) (sh_written sh')) of
                 [] \<Rightarrow> (Inl ClientClosed, c2, sh')
               | w # ws \<Rightarrow> (Inr (snd w), c2, sh')))"

text \<open>A session handle of this backend, \<^verbatim>\<open>ProxySession{client, sessionID}\<close>, is its
  session id.\<close>

definition Client_Start ::
  "string \<Rightarrow> string \<Rightarrow> string \<Rightarrow> spawn_result \<Rightarrow> Client \<times> Shepherd
     \<Rightarrow> (client_error + (string \<times> int)) \<times> Client \<times> Shepherd" where
  "Client_Start ident cliType workDir spawn cs =
     (let c1 = (fst cs)\<lparr>sessionDone := map_put ident False (sessionDone (fst cs))\<rparr>;
          (res, c2, sh2) = sendRequest (Request0\<lparr>req_Command := cmdStart, req_SessionID := ident,
                               req_CLIType := cliType, req_WorkDir := workDir\<rparr>) spawn (c1, snd cs)
      in case res of
           Inl err \<Rightarrow> (Inl err, c2\<lparr>sessionDone := map_delete ident (sessionDone c2)\<rparr>, sh2)
         | Inr resp \<Rightarrow>
             if resp_Event resp = evtError then
               (Inl (ShepherdError (resp_Error resp)),
                c2\<lparr>sessionDone := map_delete ident (sessionDone c2)\<rparr>, sh2)
             else (Inr (ident, resp_PID resp), c2, sh2))"

definition Client_Stop ::
  "string \<Rightarrow> Client \<times> Shepherd \<Rightarrow> client_error option \<times> Client \<times> Shepherd" where
  "Client_Stop ident cs =
     (let (res, c2, sh2) = sendRequest (Request0\<lparr>req_Command := cmdStop, req_SessionID := ident\<rparr>)
                             no_spawn cs
      in case res of
           Inl err \<Rightarrow> (Some err, c2, sh2)
         | Inr resp \<Rightarrow>
             if resp_Event resp = evtError then (Some (ShepherdError (resp_Error resp)), c2, sh2)
             else (None,
                   c2\<lparr>sessionDone := map_delete ident (sessionDone c2),
                      sessionSubs := map_delete ident (sessionSubs c2),
                      shepherdSubbed := map_delete ident (shepherdSubbed c2)\<rparr>,
                   sh2))"

definition Client_Get :: "string \<Rightarrow> Client \<Rightarrow> string option" where
  "Client_Get ident c =
     (case map_of (sessionDone c) ident of None \<Rightarrow> None | Some d \<Rightarrow> Some ident)"

definition Client_Resize ::
  "string \<Rightarrow> 16 word \<Rightarrow> 16 word \<Rightarrow> Client \<times> Shepherd \<Rightarrow> client_error option \<times> Client \<times> Shepherd" where
  "Client_Resize ident rows cols cs =
     (let (res, c2, sh2) = sendRequest (Request0\<lparr>req_Command := cmdResize, req_SessionID := ident,
                               req_Rows := rows, req_Cols := cols\<rparr>) no_spawn cs
      in case res of
           Inl err \<Rightarrow> (Some err, c2, sh2)
         | Inr resp \<Rightarrow>
             if resp_Event resp = evtError then (Some (ShepherdError (resp_Error resp)), c2, sh2)
             else (None, c2, sh2))"

definition Client_StopAll :: "Client \<times> Shepherd \<Rightarrow> Client \<times> Shepherd" where
  "Client_StopAll cs = snd (sendRequest (Request0\<lparr>req_Command := cmdStopAll\<rparr>) no_spawn cs)"


text \<open>The \<^verbatim>\<open>unsub\<close> closure returned by \<^verbatim>\<open>Client.subscribe\<close> for channel \<open>ch\<close>: the
  first occurrence of the channel is cut out of the session's list.\<close>

definition Client_unsub :: "string \<Rightarrow> nat \<Rightarrow> Client \<Rightarrow> Client" where
  "Client_unsub sessionID ch c =
     (let subs = lookup0 [] (sessionSubs c) sessionID
      in if ch \<in> set subs
         then c\<lparr>sessionSubs := map_put sessionID (remove1 ch subs) (sessionSubs c)\<rparr>
         else c)"

definition Client_replay :: "string \<Rightarrow> Client \<times> Shepherd \<Rightarrow> byte list \<times> Client \<times> Shepherd" where
  "Client_replay sessionID cs =
     (let (res, c2, sh2) = sendRequest (Request0\<lparr>req_Command := cmdReplay,
                               req_SessionID := sessionID\<rparr>) no_spawn cs
      in case res of Inl err \<Rightarrow> ([], c2, sh2) | Inr resp \<Rightarrow> (resp_Data resp, c2, sh2))"

definition Client_Done :: "string \<Rightarrow> Client \<Rightarrow> bool \<times> Client" where
  "Client_Done sessionID c =
     (case map_of (sessionDone c) sessionID of
        Some d \<Rightarrow> (d, c)
      | None \<Rightarrow> (False, c\<lparr>sessionDone := map_put sessionID False (sessionDone c)\<rparr>))"

definition writeInput :: "byte list \<Rightarrow> byte list \<Rightarrow> Client \<Rightarrow> client_error option \<times> Client" where
  "writeInput sessionID data c =
     (if c_conn_broken c then (Some SendRequestFailed, c)
      else (None, c\<lparr>c_input_written := c_input_written c @ [(sessionID, data)]\<rparr>))"





subsection \<open>A client and its supervisor together\<close>





subsection \<open>In-process session manager (package pty, Manager)\<close>

text \<open>The manager's sessions map and the session objects it points to. A handle of this
  backend is the pointer to the session object.\<close>

record Manager =
  m_sessions :: "(string \<times> nat) list"
  m_heap :: "nat \<rightharpoonup> session"
  m_next :: nat

definition NewManager :: Manager where
  "NewManager = \<lparr>m_sessions = [], m_heap = Map.empty, m_next = 0\<rparr>"

definition Manager_Start ::
  "string \<Rightarrow> string \<Rightarrow> string \<Rightarrow> spawn_result \<Rightarrow> Manager \<Rightarrow> (string + (nat \<times> int)) \<times> Manager" where
  "Manager_Start ident cliType workDir spawn m =
     (case spawn of
        SpawnError err \<Rightarrow> (Inl (''start pty: '' @ err), m)
      | SpawnOK pid \<Rightarrow>
          (let p = m_next m;
               m1 = m\<lparr>m_heap := (m_heap m)(p \<mapsto> new_session ident), m_next := p + 1\<rparr>;
               m2 = m1\<lparr>m_sessions := map_put ident p (m_sessions m1)\<rparr>
           in (Inr (p, pid), m2)))"

definition Manager_Get :: "string \<Rightarrow> Manager \<Rightarrow> nat option" where
  "Manager_Get ident m = map_of (m_sessions m) ident"

definition Manager_Stop :: "string \<Rightarrow> Manager \<Rightarrow> Manager" where
  "Manager_Stop ident m =
     (case map_of (m_sessions m) ident of
        None \<Rightarrow> m
      | Some p \<Rightarrow>
          (let m1 = m\<lparr>m_sessions := map_delete ident (m_sessions m)\<rparr>
           in m1\<lparr>m_heap := (m_heap m1)(p := map_option terminate_session (m_heap m1 p))\<rparr>))"

definition Manager_Resize :: "string \<Rightarrow> 16 word \<Rightarrow> 16 word \<Rightarrow> Manager \<Rightarrow> string option \<times> Manager" where
  "Manager_Resize ident rows cols m =
     (case map_of (m_sessions m) ident of
        None \<Rightarrow> (Some (''session not found: '' @ ident), m)
      | Some p \<Rightarrow>
          (case m_heap m p of
             None \<Rightarrow> (Some ''setsize failed'', m)
           | Some sess \<Rightarrow>
               if ptmx_closed sess then (Some ''setsize failed'', m)
               else (None, m\<lparr>m_heap := (m_heap m)(p \<mapsto> sess\<lparr>winsize := (rows, cols)\<rparr>)\<rparr>)))"

definition Manager_StopAll :: "Manager \<Rightarrow> Manager" where
  "Manager_StopAll m =
     (let ids = map fst (m_sessions m)
      in foldl (\<lambda>m' ident. Manager_Stop ident m') m ids)"

text \<open>The manager's exit monitor goroutine for the session object \<open>p\<close>, once
  \<^verbatim>\<open>cmd.Wait()\<close> returns.\<close>

definition Manager_exitMonitor :: "nat \<Rightarrow> Manager \<Rightarrow> Manager" where
  "Manager_exitMonitor p m =
     m\<lparr>m_heap := (m_heap m)(p := map_option (\<lambda>sess. sess\<lparr>stopped := True, done_closed := True\<rparr>)
                                   (m_heap m p))\<rparr>"

subsection \<open>The SessionManager contract over both backends\<close>

text \<open>The operations of \<^verbatim>\<open>SessionManager\<close> that change a manager, with the outcome of the
  spawn a Start would attempt.\<close>

datatype manager_op =
    OpStart string string string spawn_result
  | OpStop string
  | OpResize string "16 word" "16 word"
  | OpStopAll

fun local_step :: "Manager \<Rightarrow> manager_op \<Rightarrow> Manager" where
  "local_step m (OpStart ident cliType workDir spawn) = snd (Manager_Start ident cliType workDir spawn m)"
| "local_step m (OpStop ident) = Manager_Stop ident m"
| "local_step m (OpResize ident rows cols) = snd (Manager_Resize ident rows cols m)"
| "local_step m OpStopAll = Manager_StopAll m"

fun client_step :: "Client \<times> Shepherd \<Rightarrow> manager_op \<Rightarrow> Client \<times> Shepherd" where
  "client_step cs (OpStart ident cliType workDir spawn) = snd (Client_Start ident cliType workDir spawn cs)"
| "client_step cs (OpStop ident) = snd (Client_Stop ident cs)"
| "client_step cs (OpResize ident rows cols) = snd (Client_Resize ident rows cols cs)"
| "client_step cs OpStopAll = Client_StopAll cs"

text \<open>The local backend from a new manager; the supervisor-client backend from a new client
  connected to a new supervisor.\<close>

definition run_local :: "manager_op list \<Rightarrow> Manager" where
  "run_local ops = foldl local_step NewManager ops"

definition run_client :: "manager_op list \<Rightarrow> Client \<times> Shepherd" where
  "run_client ops = foldl client_step (NewClient 0, client_connect 0 new_Shepherd) ops"

subsection \<open>Gateway proxy (gateway/proxy.go, gateway/tunnel.go)\<close>

datatype tunnel_error = errNoTunnel | errOpenFailed

text \<open>The yamux session held by the tunnel: whether \<^verbatim>\<open>session.Open()\<close> fails on it (it is
  shut down, or the peer does not acknowledge), and how many streams were opened on it.\<close>

record yamux_session =
  open_fails :: bool
  streams_opened :: nat

record Tunnel =
  secret :: string
  session :: "yamux_session option"

text \<open>\<^verbatim>\<open>Tunnel.OpenStream\<close>: the error, or the number of the new stream, and the tunnel.\<close>

definition OpenStream :: "Tunnel \<Rightarrow> (tunnel_error + nat) \<times> Tunnel" where
  "OpenStream t =
     (case session t of
        None \<Rightarrow> (Inl errNoTunnel, t)
      | Some ys \<Rightarrow>
          if open_fails ys then (Inl errOpenFailed, t)
          else (Inr (streams_opened ys),
                t\<lparr>session := Some (ys\<lparr>streams_opened := streams_opened ys + 1\<rparr>)\<rparr>))"

record http_request =
  url_path :: string
  header_upgrade :: string

text \<open>What the server behind the tunnel and the user's connection do with one proxied
  request: whether writing the request to the stream succeeds, the response read back
  (status and body) if any, whether the response writer is a \<^verbatim>\<open>http.Hijacker\<close>, and
  whether \<^verbatim>\<open>Hijack()\<close> succeeds.\<close>

record proxy_env =
  write_ok :: bool
  read_response :: "(nat \<times> byte list) option"
  is_hijacker :: bool
  hijack_ok :: bool

text \<open>A reply written to the user's response writer: status code, the headers set, and
  the body.\<close>

record http_reply =
  reply_status :: nat
  reply_headers :: "(string \<times> string) list"
  reply_body :: string

text \<open>\<^verbatim>\<open>http.Error(w, error, code)\<close> of Go's standard library \<^verbatim>\<open>net/http\<close>, on a response
  writer that has nothing written yet: it sets the content type to plain text and the
  no-sniff option, writes the status code, and prints the error text with
  \<^verbatim>\<open>fmt.Fprintln\<close>, that is, followed by one line feed.\<close>

definition http_Error :: "string \<Rightarrow> nat \<Rightarrow> http_reply" where
  "http_Error err code =
     \<lparr>reply_status = code,
      reply_headers = [(''Content-Type'', ''text/plain; charset=utf-8''),
                       (''X-Content-Type-Options'', ''nosniff'')],
      reply_body = err @ [CHR 0x0A]\<rparr>"

text \<open>What the handler does with the request: the SPA handler serves it, the handler
  replies through \<^verbatim>\<open>http.Error\<close>, the tunnelled response is copied to the user, or the
  user's connection is hijacked and then closed at once or bridged to a stream.\<close>

datatype proxy_result =
    ServedSPA
  | Replied http_reply
  | CopiedResponse nat "byte list"
  | HijackedClosed
  | HijackedBridged nat

definition StatusBadGateway :: nat where "StatusBadGateway = 502"
definition StatusInternalServerError :: nat where "StatusInternalServerError = 500"

definition proxyHTTP :: "Tunnel \<Rightarrow> proxy_env \<Rightarrow> http_request \<Rightarrow> proxy_result \<times> Tunnel" where
  "proxyHTTP t env r =
     (case OpenStream t of
        (Inl err, t') \<Rightarrow>
          (Replied (http_Error ''{\"error\":\"gateway not connected to superposition\"}'' StatusBadGateway), t')
      | (Inr stream, t') \<Rightarrow>
          if \<not> write_ok env then
            (Replied (http_Error ''{\"error\":\"tunnel write failed\"}'' StatusBadGateway), t')
          else
            (case read_response env of
               None \<Rightarrow> (Replied (http_Error ''{\"error\":\"tunnel read failed\"}'' StatusBadGateway), t')
             | Some (code, body) \<Rightarrow> (CopiedResponse code body, t')))"

definition proxyWebSocket :: "Tunnel \<Rightarrow> proxy_env \<Rightarrow> http_request \<Rightarrow> proxy_result \<times> Tunnel" where
  "proxyWebSocket t env r =
     (case OpenStream t of
        (Inl err, t') \<Rightarrow>
          (Replied (http_Error ''{\"error\":\"gateway not connected to superposition\"}'' StatusBadGateway), t')
      | (Inr stream, t') \<Rightarrow>
          if \<not> is_hijacker env then
            (Replied (http_Error ''websocket hijack not supported'' StatusInternalServerError), t')
          else if \<not> hijack_ok env then (HijackedClosed, t')
          else if \<not> write_ok env then (HijackedClosed, t')
          else (HijackedBridged stream, t'))"

definition Proxy_ServeHTTP :: "Tunnel \<Rightarrow> proxy_env \<Rightarrow> http_request \<Rightarrow> proxy_result \<times> Tunnel" where
  "Proxy_ServeHTTP t env r =
     (let path = url_path r;
          isAPI = prefix ''/api/'' path;
          isWS = prefix ''/ws/'' path
      in if \<not> isAPI \<and> \<not> isWS then (ServedSPA, t)
         else if isWS \<and> header_upgrade r = ''websocket'' then proxyWebSocket t env r
         else proxyHTTP t env r)"

subsection \<open>Reverse-tunnel client (tunnel/client.go)\<close>

text \<open>\<^verbatim>\<open>time.Duration\<close> counts nanoseconds in an \<^verbatim>\<open>int64\<close>. The backoff never exceeds
  30 s, so its double never overflows and unbounded integers model it exactly.\<close>

type_synonym Duration = int

definition Second :: Duration where "Second = 1000000000"

text \<open>What happens to one call of \<^verbatim>\<open>Client.connect\<close>: the dial fails, the yamux session
  cannot be set up, or the tunnel is established, serves some streams and ends when
  \<^verbatim>\<open>session.Accept\<close> returns an error.\<close>

datatype connect_outcome = DialFails | YamuxFails | Connected nat

datatype connect_error = DialGateway | YamuxServer | AcceptStream

text \<open>\<^verbatim>\<open>Client.connect\<close> returns its error, \<open>None\<close> for nil. Its accept loop has no other
  exit than the error of \<^verbatim>\<open>session.Accept\<close>.\<close>

fun connect :: "connect_outcome \<Rightarrow> connect_error option" where
  "connect DialFails = Some DialGateway"
| "connect YamuxFails = Some YamuxServer"
| "connect (Connected streams) = Some AcceptStream"

text \<open>\<^verbatim>\<open>Client.Run\<close> loops forever. \<open>Run_loop\<close> gives, for the outcomes of the first calls of
  \<^verbatim>\<open>connect\<close>, the durations passed to \<^verbatim>\<open>time.Sleep\<close>, in order.\<close>

definition maxBackoff :: Duration where "maxBackoff = 30 * Second"

fun Run_loop :: "Duration \<Rightarrow> connect_outcome list \<Rightarrow> Duration list" where
  "Run_loop backoff [] = []"
| "Run_loop backoff (outcome # rest) =
     (case connect outcome of
        Some err \<Rightarrow> backoff # Run_loop (min (backoff * 2) maxBackoff) rest
      | None \<Rightarrow> Run_loop Second rest)"

definition Run :: "connect_outcome list \<Rightarrow> Duration list" where
  "Run outcomes = Run_loop Second outcomes"

section \<open>Theorems\<close>

subsection \<open>Codec\<close>

lemma Uint32_PutUint32: "Uint32 (PutUint32 v) = v"
proof (rule bit_word_eqI)
  fix n :: nat
  assume "n < LENGTH(32)"
  then consider "n < 8" | "8 \<le> n" "n < 16" | "16 \<le> n" "n < 24" | "24 \<le> n" "n < 32"
    by fastforce
  then show "bit (Uint32 (PutUint32 v)) n = bit v n"
  proof cases
    case 1 then show ?thesis by (simp add: Uint32_def PutUint32_def bit_simps)
  next
    case 2 then show ?thesis by (auto simp add: Uint32_def PutUint32_def bit_simps)
  next
    case 3 then show ?thesis by (auto simp add: Uint32_def PutUint32_def bit_simps)
  next
    case 4 then show ?thesis by (auto simp add: Uint32_def PutUint32_def bit_simps)
  qed
qed

lemma length_PutUint32: "length (PutUint32 v) = 4"
  by (simp add: PutUint32_def)

lemma writeFrame_buffer:
  "writeFrame buffer_Write w t p = Inr (w @ PutUint32 (of_nat (1 + length p)) @ t # p)"
  by (simp add: writeFrame_def buffer_Write_def)

lemma ReadFull_append: "length a = n \<Longrightarrow> ReadFull (a @ r) n = Inr (a, r)"
  by (simp add: ReadFull_def)

lemma frame_length_ok:
  assumes "length p < 10 * 1024 * 1024"
  shows "unat (of_nat (1 + length p) :: 32 word) = 1 + length p"
    and "(of_nat (1 + length p) :: 32 word) \<noteq> 0"
    and "\<not> (of_nat (1 + length p) :: 32 word) > 10 * 1024 * 1024"
proof -
  let ?l = "of_nat (1 + length p) :: 32 word"
  show u: "unat ?l = 1 + length p"
    by (rule of_nat_inverse [OF refl]) (use assms in simp)
  from u have "0 < unat ?l" by linarith
  then show "?l \<noteq> 0" by (rule unat_gt_0 [THEN iffD1])
  have c: "unat (10 * 1024 * 1024 :: 32 word) = 10 * 1024 * 1024" by simp
  have "\<not> unat (10 * 1024 * 1024 :: 32 word) < unat ?l"
    unfolding u c using assms by linarith
  then show "\<not> ?l > 10 * 1024 * 1024"
    unfolding word_less_nat_alt .
qed

lemma readFrame_writeFrame:
  assumes "length p < 10 * 1024 * 1024"
  shows "readFrame (PutUint32 (of_nat (1 + length p)) @ t # p @ rest) = Inr (t, p, rest)"
proof -
  let ?l = "of_nat (1 + length p) :: 32 word"
  have hdr: "ReadFull (PutUint32 ?l @ t # p @ rest) 4 = Inr (PutUint32 ?l, t # p @ rest)"
    by (rule ReadFull_append) (rule length_PutUint32)
  have body: "ReadFull (t # p @ rest) (unat ?l) = Inr (t # p, rest)"
    using ReadFull_append [of "t # p" "unat ?l" rest] frame_length_ok(1) [OF assms] by simp
  show ?thesis
    unfolding readFrame_def hdr
    using frame_length_ok(2,3) [OF assms] body
    by (simp add: Uint32_PutUint32 Let_def)
qed

subsection \<open>Frame round trip\<close>

text \<open>Claim C2 (amended). For every frame type and every payload of fewer than 10 MiB,
  \<open>readFrame\<close> on the bytes written by \<open>writeFrame\<close> returns the same type and payload
  (and leaves the rest of the stream). The Control payload of the ping request is 28 bytes
  long, and its frame is the header 00 00 00 1D 01 followed by those 28 bytes.\<close>

theorem frame_roundtrip:
  "length payload < 10 * 1024 * 1024 \<Longrightarrow>
     (\<exists>bs. writeFrame buffer_Write [] frameType payload = Inr bs
          \<and> readFrame (bs @ rest) = Inr (frameType, payload, rest))
     \<and> length (bytes_of ''{\"id\":\"r1\",\"command\":\"ping\"}'') = 28
     \<and> writeFrame buffer_Write [] frameControl (bytes_of ''{\"id\":\"r1\",\"command\":\"ping\"}'')
         = Inr ([0x00, 0x00, 0x00, 0x1D, 0x01] @ bytes_of ''{\"id\":\"r1\",\"command\":\"ping\"}'')"
proof -
  assume a: "length payload < 10 * 1024 * 1024"
  have "readFrame ((PutUint32 (of_nat (1 + length payload)) @ frameType # payload) @ rest)
          = Inr (frameType, payload, rest)"
    using readFrame_writeFrame [OF a, of frameType rest] by simp
  then have "\<exists>bs. writeFrame buffer_Write [] frameType payload = Inr bs
          \<and> readFrame (bs @ rest) = Inr (frameType, payload, rest)"
    unfolding writeFrame_buffer by simp
  moreover have "length (bytes_of ''{\"id\":\"r1\",\"command\":\"ping\"}'') = 28"
    by (simp add: bytes_of_def)
  moreover have "writeFrame buffer_Write [] frameControl (bytes_of ''{\"id\":\"r1\",\"command\":\"ping\"}'')
         = Inr ([0x00, 0x00, 0x00, 0x1D, 0x01] @ bytes_of ''{\"id\":\"r1\",\"command\":\"ping\"}'')"
    by (simp add: writeFrame_buffer bytes_of_def PutUint32_def frameControl_def)
  ultimately show ?thesis by blast
qed

theorem frame_roundtrip_witness:
  "length (bytes_of ''{\"id\":\"r1\",\"command\":\"ping\"}'') < 10 * 1024 * 1024
   \<and> (\<exists>bs. writeFrame buffer_Write [] frameControl (bytes_of ''{\"id\":\"r1\",\"command\":\"ping\"}'') = Inr bs
          \<and> readFrame (bs @ []) = Inr (frameControl, bytes_of ''{\"id\":\"r1\",\"command\":\"ping\"}'', []))"
proof -
  have h: "length (bytes_of ''{\"id\":\"r1\",\"command\":\"ping\"}'') < 10 * 1024 * 1024"
    by (simp add: bytes_of_def)
  from frame_roundtrip [OF h, of frameControl "[]"] h show ?thesis by blast
qed

text \<open>Claim C2 as stated fails: the ping payload is not 27 bytes long and its header is not
  00 00 00 1C 01.\<close>

theorem ping_frame_header_counterexample:
  "length (bytes_of ''{\"id\":\"r1\",\"command\":\"ping\"}'') \<noteq> 27
   \<and> writeFrame buffer_Write [] frameControl (bytes_of ''{\"id\":\"r1\",\"command\":\"ping\"}'')
       \<noteq> Inr ([0x00, 0x00, 0x00, 0x1C, 0x01] @ bytes_of ''{\"id\":\"r1\",\"command\":\"ping\"}'')"
  by (simp add: writeFrame_buffer bytes_of_def PutUint32_def frameControl_def)

subsection \<open>Data frame payload\<close>

lemma unat_id_len: "unat (of_nat n :: byte) = n mod 256"
  by (simp add: unat_of_nat)

lemma parse_dataFramePayload:
  "parseDataPayload (dataFramePayload sessionID data) =
     Inr (take (length sessionID mod 256) sessionID,
          drop (length sessionID mod 256) sessionID @ data)"
proof -
  have le: "length sessionID mod 256 \<le> length sessionID" by simp
  then show ?thesis
    by (simp add: parseDataPayload_def dataFramePayload_def Let_def unat_id_len)
qed

text \<open>Claim C10. For a session id of at most 255 bytes \<open>parseDataPayload\<close> recovers the id and
  the data from the payload built by \<open>writeDataFrame\<close>. For a longer id the length byte
  wraps modulo 256: the parser returns a proper prefix of the id, the round trip fails, and
  a different (id, data) pair has the same payload, so the encoding is not injective.\<close>

theorem data_payload_roundtrip:
  "(length sessionID \<le> 255 \<longrightarrow>
      parseDataPayload (dataFramePayload sessionID data) = Inr (sessionID, data))
   \<and> (255 < length sessionID \<longrightarrow>
        parseDataPayload (dataFramePayload sessionID data)
          = Inr (take (length sessionID mod 256) sessionID,
                 drop (length sessionID mod 256) sessionID @ data)
      \<and> parseDataPayload (dataFramePayload sessionID data) \<noteq> Inr (sessionID, data)
      \<and> take (length sessionID mod 256) sessionID \<noteq> sessionID
      \<and> dataFramePayload (take (length sessionID mod 256) sessionID)
           (drop (length sessionID mod 256) sessionID @ data)
          = dataFramePayload sessionID data)"
proof (intro conjI impI)
  assume "length sessionID \<le> 255"
  then have "length sessionID mod 256 = length sessionID" by simp
  then show "parseDataPayload (dataFramePayload sessionID data) = Inr (sessionID, data)"
    by (simp add: parse_dataFramePayload)
next
  assume big: "255 < length sessionID"
  let ?k = "length sessionID mod 256"
  have k: "?k < length sessionID" using big by (simp add: less_le_trans [OF mod_less_divisor])
  show "parseDataPayload (dataFramePayload sessionID data)
          = Inr (take ?k sessionID, drop ?k sessionID @ data)"
    by (rule parse_dataFramePayload)
  have "length (take ?k sessionID) \<noteq> length sessionID" using k by simp
  then show ne: "take ?k sessionID \<noteq> sessionID" by metis
  then show "parseDataPayload (dataFramePayload sessionID data) \<noteq> Inr (sessionID, data)"
    by (simp add: parse_dataFramePayload)
  have "(of_nat (length (take ?k sessionID)) :: byte) = of_nat (length sessionID)"
    using k by (simp add: min_def word_of_nat_eq_iff take_bit_eq_mod)
  then show "dataFramePayload (take ?k sessionID) (drop ?k sessionID @ data)
          = dataFramePayload sessionID data"
    by (simp add: dataFramePayload_def)
qed

theorem data_payload_roundtrip_witness:
  "length (bytes_of ''abc'') \<le> 255
   \<and> parseDataPayload (dataFramePayload (bytes_of ''abc'') [1, 2]) = Inr (bytes_of ''abc'', [1, 2])
   \<and> 255 < length (replicate 256 (0x61 :: byte))
   \<and> parseDataPayload (dataFramePayload (replicate 256 0x61) [1, 2])
        = Inr ([], replicate 256 0x61 @ [1, 2])
   \<and> dataFramePayload [] (replicate 256 0x61 @ [1, 2]) = dataFramePayload (replicate 256 0x61) [1, 2]"
  using data_payload_roundtrip [of "bytes_of ''abc''" "[1, 2]"]
    data_payload_roundtrip [of "replicate 256 0x61" "[1, 2]"]
  by (simp add: bytes_of_def)

subsection \<open>Replay ring\<close>

lemma appendReplay_drop:
  "appendReplay (drop (length out - replayBufSize) out) c =
     drop (length (out @ c) - replayBufSize) (out @ c)"
proof (cases "length out \<le> replayBufSize")
  case True
  then show ?thesis by (simp add: appendReplay_def Let_def)
next
  case False
  then obtain k where k: "length out = replayBufSize + k" "0 < k"
    by (metis less_imp_add_positive not_le)
  have "length c + (replayBufSize + k) - replayBufSize = length c + k" by simp
  with k show ?thesis by (simp add: appendReplay_def Let_def add.commute)
qed

lemma foldl_appendReplay:
  "foldl appendReplay (drop (length out - replayBufSize) out) cs =
     drop (length (out @ concat cs) - replayBufSize) (out @ concat cs)"
proof (induction cs arbitrary: out)
  case Nil
  show ?case by simp
next
  case (Cons c cs)
  show ?case
    using Cons.IH [of "out @ c"] by (simp only: foldl_Cons appendReplay_drop concat.simps append_assoc)
qed

lemma replayAfter_eq:
  "replayAfter chunks = drop (length (concat chunks) - replayBufSize) (concat chunks)"
  using foldl_appendReplay [of "[]" chunks] by (simp add: replayAfter_def)

lemma length_appendReplay: "length (appendReplay buf data) \<le> replayBufSize"
proof (cases "length (buf @ data) > replayBufSize")
  case True
  then have "length (drop (length (buf @ data) - replayBufSize) (buf @ data)) = replayBufSize"
    by simp
  with True show ?thesis by (simp add: appendReplay_def Let_def)
next
  case False
  then show ?thesis by (simp add: appendReplay_def Let_def)
qed

lemma appendReplay_Nil: "length buf \<le> replayBufSize \<Longrightarrow> appendReplay buf [] = buf"
  by (simp add: appendReplay_def)

lemma ptyReader_replayBuf:
  "length (replayBuf s) \<le> replayBufSize \<Longrightarrow>
     replayBuf (ptyReader reads s) = foldl appendReplay (replayBuf s) (consumed reads)"
proof (induction reads arbitrary: s)
  case Nil
  show ?case by simp
next
  case (Cons r reads)
  obtain data err where r: "r = (data, err)" by (cases r)
  let ?s1 = "if length data > 0 then broadcast data (session_appendReplay data s) else s"
  have buf: "replayBuf ?s1 = appendReplay (replayBuf s) data"
    using Cons.prems by (simp add: broadcast_def session_appendReplay_def appendReplay_Nil)
  have len: "length (replayBuf ?s1) \<le> replayBufSize"
    unfolding buf by (rule length_appendReplay)
  show ?case
  proof (cases err)
    case True
    then show ?thesis
      using buf by (simp add: r Let_def closeSubscribers_def)
  next
    case False
    then show ?thesis
      using Cons.IH [OF len] buf by (simp add: r Let_def)
  qed
qed

text \<open>Claim C1. Whatever the PTY reader of a session started by Start has read, the session's
  replay snapshot is what \<open>appendReplay\<close> makes of the chunks in order; it is a suffix of the
  concatenation of all output so far and holds at most 100 KiB; at exactly 100 KiB of
  output it holds all of it, and at 100 KiB plus one byte it holds all but the first
  byte.\<close>

theorem replay_suffix_bounded:
  "getReplay (ptyReader reads (new_session sid)) = replayAfter (consumed reads)
   \<and> suffix (replayAfter chunks) (concat chunks)
   \<and> length (replayAfter chunks) \<le> replayBufSize
   \<and> (length (concat chunks) = replayBufSize \<longrightarrow> replayAfter chunks = concat chunks)
   \<and> (length (concat chunks) = replayBufSize + 1 \<longrightarrow> replayAfter chunks = tl (concat chunks))"
proof -
  have "getReplay (ptyReader reads (new_session sid)) = replayAfter (consumed reads)"
    using ptyReader_replayBuf [of "new_session sid" reads]
    by (simp add: getReplay_def replayAfter_def new_session_def)
  moreover have "suffix (replayAfter chunks) (concat chunks)"
    unfolding replayAfter_eq by (rule suffix_drop)
  moreover have "length (replayAfter chunks) \<le> replayBufSize"
    unfolding replayAfter_eq by simp
  moreover have "length (concat chunks) = replayBufSize \<longrightarrow> replayAfter chunks = concat chunks"
    unfolding replayAfter_eq by simp
  moreover have "length (concat chunks) = replayBufSize + 1 \<longrightarrow> replayAfter chunks = tl (concat chunks)"
    unfolding replayAfter_eq by (simp add: drop_Suc)
  ultimately show ?thesis by blast
qed

theorem replay_suffix_bounded_witness:
  "length (concat [replicate 102400 (7::byte)]) = replayBufSize
   \<and> replayAfter [replicate 102400 7] = replicate 102400 7
   \<and> length (concat [[1], replicate 102400 (7::byte)]) = replayBufSize + 1
   \<and> replayAfter [[1], replicate 102400 7] = replicate 102400 7
   \<and> length (replayAfter [[1], replicate 102400 7]) \<le> replayBufSize"
  using replay_suffix_bounded [where chunks = "[replicate 102400 7]"]
    replay_suffix_bounded [where chunks = "[[1], replicate 102400 7]"]
  by (simp add: replayBufSize_def)

subsection \<open>Exit notification\<close>

lemma controls_append: "controls (xs @ ys) = controls xs @ controls ys"
  by (simp add: controls_def)

lemma controls_WroteControl: "controls (map (\<lambda>c. WroteControl c resp) cs) = map (\<lambda>c. (c, resp)) cs"
  by (induction cs) (simp_all add: controls_def)

lemma controls_simps:
  "controls [] = []"
  "controls (WroteControl cw msg # evs) = (cw, msg) # controls evs"
  "controls (WroteData cw bytes # evs) = controls evs"
  "controls (SessionInserted ident p # evs) = controls evs"
  "controls (SessionDeleted ident # evs) = controls evs"
  "controls (SessionsCleared # evs) = controls evs"
  by (simp_all add: controls_def)

lemma foldl_writeControl:
  "foldl (\<lambda>sh' c. connWriter_writeControl c resp sh') sh cs
     = sh\<lparr>sh_log := sh_log sh @ map (\<lambda>c. WroteControl c resp) cs\<rparr>"
  by (induction cs arbitrary: sh) (simp_all add: connWriter_writeControl_def)

lemma broadcastExit_eq:
  "broadcastExit sid sh =
     sh\<lparr>sh_log := sh_log sh
          @ map (\<lambda>c. WroteControl c (Response0\<lparr>resp_Event := evtExited, resp_SessionID := sid\<rparr>))
              (sh_clients sh)\<rparr>"
  by (simp add: broadcastExit_def Let_def foldl_writeControl)

lemma exitMonitor_log:
  "sh_log (exitMonitor p sid sh) =
     sh_log sh
       @ map (\<lambda>c. WroteControl c (Response0\<lparr>resp_Event := evtExited, resp_SessionID := sid\<rparr>))
           (sh_clients sh)
       @ [SessionDeleted sid]"
  by (simp add: exitMonitor_def exit_broadcast_def broadcastExit_eq exit_signalled_def
      update_session_def Let_def)

lemma exitMonitor_sessions:
  "sh_sessions (exitMonitor p sid sh) = map_delete sid (sh_sessions sh)"
  by (simp add: exitMonitor_def exit_broadcast_def broadcastExit_eq exit_signalled_def
      update_session_def Let_def)

lemma count_one_in_distinct_map:
  "distinct cs \<Longrightarrow> c \<in> set cs \<Longrightarrow> length (filter (\<lambda>w. w = (c, r)) (map (\<lambda>c. (c, r)) cs)) = 1"
proof (induction cs)
  case Nil
  then show ?case by simp
next
  case (Cons a cs)
  have none: "a \<notin> set cs \<Longrightarrow> filter (\<lambda>w. w = (a, r)) (map (\<lambda>c. (c, r)) cs) = []"
    by (induction cs) auto
  show ?case
  proof (cases "c = a")
    case True
    with Cons.prems none show ?thesis by simp
  next
    case False
    with Cons show ?thesis by simp
  qed
qed

lemma map_of_map_delete:
  "map_of (map_delete k m) k' = (if k' = k then None else map_of m k')"
  by (induction m) (auto simp add: map_delete_def)

lemma foldl_terminate_fields:
  "sh_sessions (foldl (\<lambda>sh' p. update_session p terminate_session sh') sh ps) = sh_sessions sh
   \<and> sh_clients (foldl (\<lambda>sh' p. update_session p terminate_session sh') sh ps) = sh_clients sh
   \<and> sh_log (foldl (\<lambda>sh' p. update_session p terminate_session sh') sh ps) = sh_log sh"
  by (induction ps arbitrary: sh) (simp_all add: update_session_def)

lemma stopAll_fields:
  "sh_sessions (stopAll sh) = []"
  "sh_clients (stopAll sh) = sh_clients sh"
  "sh_log (stopAll sh) = sh_log sh @ [SessionsCleared]"
  by (simp_all add: stopAll_def Let_def foldl_terminate_fields)

lemma handleStop_fields:
  "map_of (sh_sessions (handleStop cw req sh)) (req_SessionID req) = None"
  "sh_clients (handleStop cw req sh) = sh_clients sh"
  "map_of (sh_sessions sh) (req_SessionID req) = Some q \<Longrightarrow>
     sh_log (handleStop cw req sh) =
       sh_log sh @ [SessionDeleted (req_SessionID req),
                    WroteControl cw (Response0\<lparr>resp_ID := req_ID req, resp_Event := evtStopDone\<rparr>)]"
  by (simp_all add: handleStop_def sendResponse_def connWriter_writeControl_def
      update_session_def map_of_map_delete Let_def split: option.splits)

lemma handleControl_Stop:
  "req_Command req = cmdStop \<Longrightarrow> handleControl cw req spawn sh = handleStop cw req sh"
  by (simp add: handleControl_def cmdStop_def cmdPing_def cmdStart_def)

lemma handleControl_StopAll:
  "req_Command req = cmdStopAll \<Longrightarrow>
     handleControl cw req spawn sh =
       sendResponse cw (Response0\<lparr>resp_ID := req_ID req, resp_Event := evtStopDone\<rparr>) (stopAll sh)"
  by (simp add: handleControl_def cmdStopAll_def cmdStop_def cmdPing_def cmdStart_def
      cmdResize_def cmdReplay_def cmdSubscribe_def cmdList_def)

text \<open>Claim C3 (amended). When the child of a session is reaped, the exit monitor first hands
  to the connection of every client connected at that moment exactly one control message,
  the Exited notification with that session's id and an empty correlation id, and to no
  one else, and only then deletes the session's id from the table: in the supervisor's
  events the writes come first and the delete is the last event. A Stop request removes
  the session from the table itself, and a StopAll request empties the table, before the
  StopDone response is written; when the child of a session stopped this way is reaped,
  the table no longer holds it, and the monitor still broadcasts to every client and
  deletes the id again.\<close>

theorem exit_broadcast_then_delete:
  "distinct (sh_clients sh) \<Longrightarrow>
     sh_log (exitMonitor p sid sh)
       = sh_log sh
         @ map (\<lambda>c. WroteControl c (Response0\<lparr>resp_Event := evtExited, resp_SessionID := sid\<rparr>))
             (sh_clients sh)
         @ [SessionDeleted sid]
   \<and> (\<forall>c \<in> set (sh_clients sh).
         length (filter (\<lambda>w. w = (c, Response0\<lparr>resp_Event := evtExited, resp_SessionID := sid\<rparr>))
                   (drop (length (sh_written sh)) (sh_written (exitMonitor p sid sh)))) = 1)
   \<and> (\<forall>w \<in> set (drop (length (sh_written sh)) (sh_written (exitMonitor p sid sh))).
         fst w \<in> set (sh_clients sh) \<and> resp_Event (snd w) = ''exited''
         \<and> resp_SessionID (snd w) = sid \<and> resp_ID (snd w) = '''')
   \<and> map_of (sh_sessions (exitMonitor p sid sh)) sid = None
   \<and> (req_Command req = cmdStop \<longrightarrow>
         map_of (sh_sessions (handleControl cw req spawn sh)) (req_SessionID req) = None
       \<and> sh_clients (handleControl cw req spawn sh) = sh_clients sh
       \<and> (map_of (sh_sessions sh) (req_SessionID req) \<noteq> None \<longrightarrow>
            sh_log (exitMonitor p (req_SessionID req) (handleControl cw req spawn sh))
              = sh_log sh
                @ [SessionDeleted (req_SessionID req),
                   WroteControl cw (Response0\<lparr>resp_ID := req_ID req, resp_Event := evtStopDone\<rparr>)]
                @ map (\<lambda>c. WroteControl c (Response0\<lparr>resp_Event := evtExited,
                                                        resp_SessionID := req_SessionID req\<rparr>))
                    (sh_clients sh)
                @ [SessionDeleted (req_SessionID req)]))
   \<and> (req_Command req = cmdStopAll \<longrightarrow>
         sh_sessions (handleControl cw req spawn sh) = []
       \<and> sh_clients (handleControl cw req spawn sh) = sh_clients sh
       \<and> sh_log (exitMonitor p sid (handleControl cw req spawn sh))
              = sh_log sh
                @ [SessionsCleared,
                   WroteControl cw (Response0\<lparr>resp_ID := req_ID req, resp_Event := evtStopDone\<rparr>)]
                @ map (\<lambda>c. WroteControl c (Response0\<lparr>resp_Event := evtExited, resp_SessionID := sid\<rparr>))
                    (sh_clients sh)
                @ [SessionDeleted sid])"
proof -
  assume d: "distinct (sh_clients sh)"
  let ?resp = "Response0\<lparr>resp_Event := evtExited, resp_SessionID := sid\<rparr>"
  have dr: "drop (length (sh_written sh)) (sh_written (exitMonitor p sid sh))
              = map (\<lambda>c. (c, ?resp)) (sh_clients sh)"
    by (simp add: sh_written_def exitMonitor_log controls_append controls_WroteControl
        controls_simps)
  have one: "\<forall>c \<in> set (sh_clients sh).
         length (filter (\<lambda>w. w = (c, ?resp))
                   (drop (length (sh_written sh)) (sh_written (exitMonitor p sid sh)))) = 1"
    unfolding dr
  proof
    fix c assume "c \<in> set (sh_clients sh)"
    then show "length (filter (\<lambda>w. w = (c, ?resp)) (map (\<lambda>c. (c, ?resp)) (sh_clients sh))) = 1"
      by (rule count_one_in_distinct_map [OF d])
  qed
  have only: "\<forall>w \<in> set (drop (length (sh_written sh)) (sh_written (exitMonitor p sid sh))).
         fst w \<in> set (sh_clients sh) \<and> resp_Event (snd w) = ''exited''
         \<and> resp_SessionID (snd w) = sid \<and> resp_ID (snd w) = ''''"
    unfolding dr by (auto simp add: Response0_def evtExited_def)
  have gone: "map_of (sh_sessions (exitMonitor p sid sh)) sid = None"
    by (simp add: exitMonitor_sessions map_of_map_delete)
  have stop: "req_Command req = cmdStop \<longrightarrow>
         map_of (sh_sessions (handleControl cw req spawn sh)) (req_SessionID req) = None
       \<and> sh_clients (handleControl cw req spawn sh) = sh_clients sh
       \<and> (map_of (sh_sessions sh) (req_SessionID req) \<noteq> None \<longrightarrow>
            sh_log (exitMonitor p (req_SessionID req) (handleControl cw req spawn sh))
              = sh_log sh
                @ [SessionDeleted (req_SessionID req),
                   WroteControl cw (Response0\<lparr>resp_ID := req_ID req, resp_Event := evtStopDone\<rparr>)]
                @ map (\<lambda>c. WroteControl c (Response0\<lparr>resp_Event := evtExited,
                                                        resp_SessionID := req_SessionID req\<rparr>))
                    (sh_clients sh)
                @ [SessionDeleted (req_SessionID req)])"
  proof (intro impI conjI)
    assume c: "req_Command req = cmdStop"
    show "map_of (sh_sessions (handleControl cw req spawn sh)) (req_SessionID req) = None"
      by (simp only: handleControl_Stop [OF c] handleStop_fields(1))
    show "sh_clients (handleControl cw req spawn sh) = sh_clients sh"
      by (simp only: handleControl_Stop [OF c] handleStop_fields(2))
    assume "map_of (sh_sessions sh) (req_SessionID req) \<noteq> None"
    then obtain q where q: "map_of (sh_sessions sh) (req_SessionID req) = Some q" by blast
    show "sh_log (exitMonitor p (req_SessionID req) (handleControl cw req spawn sh))
              = sh_log sh
                @ [SessionDeleted (req_SessionID req),
                   WroteControl cw (Response0\<lparr>resp_ID := req_ID req, resp_Event := evtStopDone\<rparr>)]
                @ map (\<lambda>c. WroteControl c (Response0\<lparr>resp_Event := evtExited,
                                                        resp_SessionID := req_SessionID req\<rparr>))
                    (sh_clients sh)
                @ [SessionDeleted (req_SessionID req)]"
      by (simp only: handleControl_Stop [OF c] exitMonitor_log handleStop_fields(2)
          handleStop_fields(3) [OF q] append_assoc)
  qed
  have all: "req_Command req = cmdStopAll \<longrightarrow>
         sh_sessions (handleControl cw req spawn sh) = []
       \<and> sh_clients (handleControl cw req spawn sh) = sh_clients sh
       \<and> sh_log (exitMonitor p sid (handleControl cw req spawn sh))
              = sh_log sh
                @ [SessionsCleared,
                   WroteControl cw (Response0\<lparr>resp_ID := req_ID req, resp_Event := evtStopDone\<rparr>)]
                @ map (\<lambda>c. WroteControl c ?resp) (sh_clients sh)
                @ [SessionDeleted sid]"
  proof
    assume c: "req_Command req = cmdStopAll"
    show "sh_sessions (handleControl cw req spawn sh) = []
       \<and> sh_clients (handleControl cw req spawn sh) = sh_clients sh
       \<and> sh_log (exitMonitor p sid (handleControl cw req spawn sh))
              = sh_log sh
                @ [SessionsCleared,
                   WroteControl cw (Response0\<lparr>resp_ID := req_ID req, resp_Event := evtStopDone\<rparr>)]
                @ map (\<lambda>c. WroteControl c ?resp) (sh_clients sh)
                @ [SessionDeleted sid]"
      by (simp add: handleControl_StopAll [OF c] exitMonitor_log sendResponse_def
          connWriter_writeControl_def stopAll_fields)
  qed
  from exitMonitor_log [of p sid sh] one only gone stop all
  show ?thesis by blast
qed

theorem exit_broadcast_then_delete_witness:
  "distinct (sh_clients (new_Shepherd\<lparr>sh_clients := [0, 1], sh_sessions := [(''abc'', 0)],
       sh_heap := [0 \<mapsto> new_session ''abc'']\<rparr>))
   \<and> sh_log (exitMonitor 0 ''abc'' (new_Shepherd\<lparr>sh_clients := [0, 1],
         sh_sessions := [(''abc'', 0)], sh_heap := [0 \<mapsto> new_session ''abc'']\<rparr>))
       = [WroteControl 0 (Response0\<lparr>resp_Event := evtExited, resp_SessionID := ''abc''\<rparr>),
          WroteControl 1 (Response0\<lparr>resp_Event := evtExited, resp_SessionID := ''abc''\<rparr>),
          SessionDeleted ''abc'']
   \<and> req_Command (Request0\<lparr>req_ID := ''r2'', req_Command := cmdStop, req_SessionID := ''abc''\<rparr>)
       = cmdStop
   \<and> map_of (sh_sessions (new_Shepherd\<lparr>sh_clients := [0, 1], sh_sessions := [(''abc'', 0)],
         sh_heap := [0 \<mapsto> new_session ''abc'']\<rparr>))
        (req_SessionID (Request0\<lparr>req_ID := ''r2'', req_Command := cmdStop, req_SessionID := ''abc''\<rparr>))
       \<noteq> None
   \<and> sh_log (exitMonitor 0 ''abc''
        (handleControl 0 (Request0\<lparr>req_ID := ''r2'', req_Command := cmdStop, req_SessionID := ''abc''\<rparr>)
           (SpawnError '''')
           (new_Shepherd\<lparr>sh_clients := [0, 1], sh_sessions := [(''abc'', 0)],
              sh_heap := [0 \<mapsto> new_session ''abc'']\<rparr>)))
       = [SessionDeleted ''abc'',
          WroteControl 0 (Response0\<lparr>resp_ID := ''r2'', resp_Event := evtStopDone\<rparr>),
          WroteControl 0 (Response0\<lparr>resp_Event := evtExited, resp_SessionID := ''abc''\<rparr>),
          WroteControl 1 (Response0\<lparr>resp_Event := evtExited, resp_SessionID := ''abc''\<rparr>),
          SessionDeleted ''abc'']
   \<and> req_Command (Request0\<lparr>req_ID := ''r3'', req_Command := cmdStopAll\<rparr>) = cmdStopAll
   \<and> sh_log (exitMonitor 0 ''abc''
        (handleControl 0 (Request0\<lparr>req_ID := ''r3'', req_Command := cmdStopAll\<rparr>)
           (SpawnError '''')
           (new_Shepherd\<lparr>sh_clients := [0, 1], sh_sessions := [(''abc'', 0)],
              sh_heap := [0 \<mapsto> new_session ''abc'']\<rparr>)))
       = [SessionsCleared,
          WroteControl 0 (Response0\<lparr>resp_ID := ''r3'', resp_Event := evtStopDone\<rparr>),
          WroteControl 0 (Response0\<lparr>resp_Event := evtExited, resp_SessionID := ''abc''\<rparr>),
          WroteControl 1 (Response0\<lparr>resp_Event := evtExited, resp_SessionID := ''abc''\<rparr>),
          SessionDeleted ''abc'']"
  using exit_broadcast_then_delete [where sh = "new_Shepherd\<lparr>sh_clients := [0, 1],
         sh_sessions := [(''abc'', 0)], sh_heap := [0 \<mapsto> new_session ''abc'']\<rparr>"
      and p = 0 and sid = "''abc''" and cw = 0 and spawn = "SpawnError ''''"
      and req = "Request0\<lparr>req_ID := ''r2'', req_Command := cmdStop, req_SessionID := ''abc''\<rparr>"]
    exit_broadcast_then_delete [where sh = "new_Shepherd\<lparr>sh_clients := [0, 1],
         sh_sessions := [(''abc'', 0)], sh_heap := [0 \<mapsto> new_session ''abc'']\<rparr>"
      and p = 0 and sid = "''abc''" and cw = 0 and spawn = "SpawnError ''''"
      and req = "Request0\<lparr>req_ID := ''r3'', req_Command := cmdStopAll\<rparr>"]
  by (simp add: new_Shepherd_def Request0_def cmdStop_def cmdStopAll_def)

text \<open>Claim C3 as stated fails for a session that was stopped: \<open>handleStop\<close> removes it from
  the table before its child is reaped, so the table no longer holds it when the exit
  monitor broadcasts. Here client 0 starts session abc and stops it; then the child is
  reaped. In the events the delete of abc comes before the Exited notification.\<close>

theorem stopped_session_removed_before_broadcast:
  "map_of (sh_sessions (handleStart 0 (Request0\<lparr>req_ID := ''r1'', req_Command := cmdStart,
              req_SessionID := ''abc'', req_CLIType := ''claude'', req_WorkDir := ''/tmp''\<rparr>)
            (SpawnOK 4242) (client_connect 0 new_Shepherd))) ''abc'' = Some 0
   \<and> map_of (sh_sessions (handleStop 0 (Request0\<lparr>req_ID := ''r2'', req_Command := cmdStop,
              req_SessionID := ''abc''\<rparr>)
        (handleStart 0 (Request0\<lparr>req_ID := ''r1'', req_Command := cmdStart,
              req_SessionID := ''abc'', req_CLIType := ''claude'', req_WorkDir := ''/tmp''\<rparr>)
            (SpawnOK 4242) (client_connect 0 new_Shepherd)))) ''abc'' = None
   \<and> sh_log (exitMonitor 0 ''abc''
        (handleStop 0 (Request0\<lparr>req_ID := ''r2'', req_Command := cmdStop,
              req_SessionID := ''abc''\<rparr>)
        (handleStart 0 (Request0\<lparr>req_ID := ''r1'', req_Command := cmdStart,
              req_SessionID := ''abc'', req_CLIType := ''claude'', req_WorkDir := ''/tmp''\<rparr>)
            (SpawnOK 4242) (client_connect 0 new_Shepherd))))
     = [SessionInserted ''abc'' 0,
        WroteControl 0 (Response0\<lparr>resp_ID := ''r1'', resp_Event := evtStarted,
                          resp_SessionID := ''abc'', resp_PID := 4242\<rparr>),
        SessionDeleted ''abc'',
        WroteControl 0 (Response0\<lparr>resp_ID := ''r2'', resp_Event := evtStopDone\<rparr>),
        WroteControl 0 (Response0\<lparr>resp_Event := evtExited, resp_SessionID := ''abc''\<rparr>),
        SessionDeleted ''abc'']"
  by (simp add: handleStart_def handleStop_def exitMonitor_def exit_broadcast_def
      exit_signalled_def broadcastExit_def sendResponse_def connWriter_writeControl_def
      update_session_def client_connect_def new_Shepherd_def map_put_def map_delete_def
      Request0_def Response0_def Let_def)

subsection \<open>Fan-out to subscribers\<close>

lemma subs_inv_new: "subs_inv (new_session sid)"
  by (simp add: subs_inv_def new_session_def)

lemma try_send_cap: "chan_cap (try_send d ch) = chan_cap ch"
  and try_send_closed: "chan_closed (try_send d ch) = chan_closed ch"
  and try_send_len: "chan_cap ch = n \<Longrightarrow> length (chan_buf ch) \<le> n \<Longrightarrow> length (chan_buf (try_send d ch)) \<le> n"
  by (simp_all add: try_send_def)

lemma subs_inv_step: "subs_inv s \<Longrightarrow> subs_inv (session_step s op)"
proof (cases op)
  case Subscribe
  assume "subs_inv s"
  then show ?thesis
    unfolding Subscribe subs_inv_def
    by (auto simp add: subscribe_def Let_def make_chan_def less_Suc_eq dest: less_irrefl_nat)
next
  case (Unsub ch)
  assume "subs_inv s"
  then show ?thesis
    unfolding Unsub subs_inv_def by (simp add: unsub_def)
next
  case (Receive ch)
  assume "subs_inv s"
  then show ?thesis
    unfolding Receive subs_inv_def
    by (auto simp add: receive_def split: option.splits) fastforce+
next
  case (Output data)
  assume "subs_inv s"
  then show ?thesis
    unfolding Output subs_inv_def
    by (auto simp add: broadcast_def session_appendReplay_def try_send_cap try_send_closed
        try_send_len)
qed

lemma subs_inv_run: "subs_inv (session_run sid ops)"
proof -
  have "subs_inv s \<Longrightarrow> subs_inv (foldl session_step s ops)" for s
    by (induction ops arbitrary: s) (simp_all add: subs_inv_step)
  then show ?thesis by (simp add: session_run_def subs_inv_new)
qed

text \<open>Claim C4. In every state a session reaches, each subscriber's channel has capacity 256
  and holds at most 256 chunks. A broadcast appends the chunk once, at the tail, to the
  queue of each subscriber with room, leaves a full queue exactly as it was (the new chunk
  is the one lost), leaves all other channels alone, and is a total function: the reader
  has no branch that waits for a subscriber.\<close>

theorem broadcast_drop_newest:
  "\<forall>c \<in> subscribers (session_run sid ops).
      \<exists>ch. chans (session_run sid ops) c = Some ch
        \<and> chan_cap ch = 256 \<and> length (chan_buf ch) \<le> 256
        \<and> (length (chan_buf ch) < 256 \<longrightarrow>
              chans (broadcast data (session_run sid ops)) c
                = Some (ch\<lparr>chan_buf := chan_buf ch @ [data]\<rparr>))
        \<and> (length (chan_buf ch) = 256 \<longrightarrow>
              chans (broadcast data (session_run sid ops)) c = Some ch)"
proof
  fix c
  assume c: "c \<in> subscribers (session_run sid ops)"
  with subs_inv_run [of sid ops] obtain ch where
    ch: "chans (session_run sid ops) c = Some ch" "chan_cap ch = 256"
      "length (chan_buf ch) \<le> 256"
    unfolding subs_inv_def by blast
  from c ch show "\<exists>ch. chans (session_run sid ops) c = Some ch
        \<and> chan_cap ch = 256 \<and> length (chan_buf ch) \<le> 256
        \<and> (length (chan_buf ch) < 256 \<longrightarrow>
              chans (broadcast data (session_run sid ops)) c
                = Some (ch\<lparr>chan_buf := chan_buf ch @ [data]\<rparr>))
        \<and> (length (chan_buf ch) = 256 \<longrightarrow>
              chans (broadcast data (session_run sid ops)) c = Some ch)"
    by (simp add: broadcast_def try_send_def)
qed

lemma outputs_fill_queue:
  "chans s c = Some ch \<Longrightarrow> c \<in> subscribers s \<Longrightarrow> length (chan_buf ch) + n \<le> chan_cap ch \<Longrightarrow>
     chans (foldl session_step s (replicate n (Output d))) c
       = Some (ch\<lparr>chan_buf := chan_buf ch @ replicate n d\<rparr>)
     \<and> subscribers (foldl session_step s (replicate n (Output d))) = subscribers s"
proof (induction n arbitrary: s ch)
  case 0
  then show ?case by simp
next
  case (Suc n)
  let ?s = "session_step s (Output d)"
  let ?ch = "ch\<lparr>chan_buf := chan_buf ch @ [d]\<rparr>"
  have 1: "chans ?s c = Some ?ch"
    using Suc.prems by (simp add: broadcast_def session_appendReplay_def try_send_def)
  have 2: "c \<in> subscribers ?s"
    using Suc.prems by (simp add: broadcast_def session_appendReplay_def)
  have 3: "length (chan_buf ?ch) + n \<le> chan_cap ?ch"
    using Suc.prems by simp
  have 4: "subscribers ?s = subscribers s"
    by (simp add: broadcast_def session_appendReplay_def)
  from Suc.IH [OF 1 2 3] 4 show ?case
    by (simp add: replicate_app_Cons_same)
qed

theorem broadcast_drop_newest_witness:
  "0 \<in> subscribers (session_run ''abc'' [Subscribe])
   \<and> chans (broadcast [1] (session_run ''abc'' [Subscribe])) 0
       = Some \<lparr>chan_cap = 256, chan_buf = [[1]], chan_closed = False\<rparr>
   \<and> 0 \<in> subscribers (session_run ''abc'' (Subscribe # replicate 256 (Output [7])))
   \<and> chans (broadcast [1] (session_run ''abc'' (Subscribe # replicate 256 (Output [7])))) 0
       = Some \<lparr>chan_cap = 256, chan_buf = replicate 256 [7], chan_closed = False\<rparr>"
proof -
  let ?s1 = "session_run ''abc'' [Subscribe]"
  let ?s2 = "session_run ''abc'' (Subscribe # replicate 256 (Output [7]))"
  have s1: "chans ?s1 0 = Some \<lparr>chan_cap = 256, chan_buf = [], chan_closed = False\<rparr>"
    "0 \<in> subscribers ?s1"
    by (simp_all add: session_run_def new_session_def subscribe_def make_chan_def)
  have "?s2 = foldl session_step ?s1 (replicate 256 (Output [7]))"
    by (simp add: session_run_def)
  with outputs_fill_queue [OF s1, of 256 "[7]"]
  have s2: "chans ?s2 0 = Some \<lparr>chan_cap = 256, chan_buf = replicate 256 [7], chan_closed = False\<rparr>"
    "0 \<in> subscribers ?s2"
    using s1(2) by simp_all
  from broadcast_drop_newest [of "''abc''" "[Subscribe]" "[1]"] s1
  have a: "chans (broadcast [1] ?s1) 0 = Some \<lparr>chan_cap = 256, chan_buf = [[1]], chan_closed = False\<rparr>"
    by force
  from broadcast_drop_newest [of "''abc''" "Subscribe # replicate 256 (Output [7])" "[1]"] s2
  have b: "chans (broadcast [1] ?s2) 0
       = Some \<lparr>chan_cap = 256, chan_buf = replicate 256 [7], chan_closed = False\<rparr>"
    by force
  from s1(2) s2(2) a b show ?thesis by blast
qed

subsection \<open>Replay before live output\<close>

lemma split_after_prefix:
  "xs @ ys = pre @ w # post \<Longrightarrow> w \<notin> set xs \<Longrightarrow> \<exists>pre'. pre = xs @ pre'"
proof (induction xs arbitrary: pre)
  case Nil
  then show ?case by simp
next
  case (Cons x xs)
  show ?case
  proof (cases pre)
    case Nil
    with Cons.prems show ?thesis by simp
  next
    case pre: (Cons p pre1)
    with Cons.prems have a: "x = p" "xs @ ys = pre1 @ w # post" "w \<notin> set xs" by simp_all
    from Cons.IH [OF a(2) a(3)] obtain pre' where "pre1 = xs @ pre'" ..
    then show ?thesis using pre a(1) by simp
  qed
qed

lemma live_write_after:
  assumes "hd_evs @ CallSubscribe # rest = pre @ WriteMessage OutputPump t d ok # post"
    and "WriteMessage OutputPump t d ok \<notin> set hd_evs"
  shows "CallSubscribe \<in> set pre \<and> (\<forall>e \<in> set hd_evs. e \<in> set pre)"
proof -
  have 1: "(hd_evs @ [CallSubscribe]) @ rest = pre @ WriteMessage OutputPump t d ok # post"
    using assms(1) by simp
  have 2: "WriteMessage OutputPump t d ok \<notin> set (hd_evs @ [CallSubscribe])"
    using assms(2) by simp
  from split_after_prefix [OF 1 2] obtain pre' where "pre = (hd_evs @ [CallSubscribe]) @ pre'" ..
  then show ?thesis by simp
qed

lemma bridge_live_after_replay:
  assumes "bridge_ServeHTTP k env = pre @ WriteMessage OutputPump t d ok # post"
  shows "CallReplay \<in> set pre \<and> CallSubscribe \<in> set pre
     \<and> (replay_bytes env \<noteq> [] \<longrightarrow>
          WriteMessage ReplaySend BinaryMessage (replay_bytes env) True \<in> set pre)"
proof -
  let ?w = "WriteMessage OutputPump t d ok"
  let ?rest = "bridge_run \<lparr>pump_running = True, ping_running = k, input_running = True,
                            main_waiting = True\<rparr> (schedule env)"
  have in_tr: "?w \<in> set (bridge_ServeHTTP k env)" using assms by simp
  show ?thesis
  proof (cases "replay_bytes env = []")
    case True
    have "path_id env \<noteq> ''''" "session_found env" "upgrade_ok env"
      using in_tr by (auto simp add: bridge_ServeHTTP_def split: if_splits)
    with True have "bridge_ServeHTTP k env = [CallReplay] @ CallSubscribe # ?rest"
      by (simp add: bridge_ServeHTTP_def Let_def)
    with assms have "[CallReplay] @ CallSubscribe # ?rest = pre @ ?w # post" by simp
    from live_write_after [OF this] True show ?thesis by simp
  next
    case False
    have "path_id env \<noteq> ''''" "session_found env" "upgrade_ok env"
      using in_tr by (auto simp add: bridge_ServeHTTP_def split: if_splits)
    moreover have "replay_write_ok env"
      using in_tr False by (auto simp add: bridge_ServeHTTP_def Let_def split: if_splits)
    ultimately have "bridge_ServeHTTP k env
        = [CallReplay, WriteMessage ReplaySend BinaryMessage (replay_bytes env) True]
            @ CallSubscribe # ?rest"
      using False by (simp add: bridge_ServeHTTP_def Let_def)
    with assms have "[CallReplay, WriteMessage ReplaySend BinaryMessage (replay_bytes env) True]
            @ CallSubscribe # ?rest = pre @ ?w # post" by simp
    from live_write_after [OF this] show ?thesis by simp
  qed
qed

text \<open>Claim C5. In both versions of the bridge, whenever the output pump writes a chunk of the
  subscription to the browser, the handler has before that called Replay, then, if the
  replay snapshot is not empty, written the whole snapshot to the browser in one binary
  message with success, and then called Subscribe.\<close>

theorem replay_before_live:
  "(ServeHTTP env = pre @ WriteMessage OutputPump t d ok # post \<longrightarrow>
      CallReplay \<in> set pre \<and> CallSubscribe \<in> set pre
      \<and> (replay_bytes env \<noteq> [] \<longrightarrow>
            WriteMessage ReplaySend BinaryMessage (replay_bytes env) True \<in> set pre))
   \<and> (ServeHTTP_plain env = pre' @ WriteMessage OutputPump t' d' ok' # post' \<longrightarrow>
      CallReplay \<in> set pre' \<and> CallSubscribe \<in> set pre'
      \<and> (replay_bytes env \<noteq> [] \<longrightarrow>
            WriteMessage ReplaySend BinaryMessage (replay_bytes env) True \<in> set pre'))"
  unfolding ServeHTTP_def ServeHTTP_plain_def
  using bridge_live_after_replay [of True env pre t d ok post]
    bridge_live_after_replay [of False env pre' t' d' ok' post']
  by blast

theorem replay_before_live_witness:
  "ServeHTTP \<lparr>path_id = ''abc'', session_found = True, upgrade_ok = True,
       replay_bytes = bytes_of ''abcdef'', replay_write_ok = True,
       schedule = [ChunkArrives (bytes_of ''gh'') True]\<rparr>
     = [CallReplay, WriteMessage ReplaySend BinaryMessage (bytes_of ''abcdef'') True, CallSubscribe]
         @ WriteMessage OutputPump BinaryMessage (bytes_of ''gh'') True # []
   \<and> ServeHTTP_plain \<lparr>path_id = ''abc'', session_found = True, upgrade_ok = True,
       replay_bytes = bytes_of ''abcdef'', replay_write_ok = True,
       schedule = [ChunkArrives (bytes_of ''gh'') True]\<rparr>
     = [CallReplay, WriteMessage ReplaySend BinaryMessage (bytes_of ''abcdef'') True, CallSubscribe]
         @ WriteMessage OutputPump BinaryMessage (bytes_of ''gh'') True # []
   \<and> replay_bytes \<lparr>path_id = ''abc'', session_found = True, upgrade_ok = True,
       replay_bytes = bytes_of ''abcdef'', replay_write_ok = True,
       schedule = [ChunkArrives (bytes_of ''gh'') True]\<rparr> \<noteq> []
   \<and> WriteMessage ReplaySend BinaryMessage (bytes_of ''abcdef'') True
       \<in> set [CallReplay, WriteMessage ReplaySend BinaryMessage (bytes_of ''abcdef'') True,
               CallSubscribe]"
  using replay_before_live [of
      "\<lparr>path_id = ''abc'', session_found = True, upgrade_ok = True,
        replay_bytes = bytes_of ''abcdef'', replay_write_ok = True,
        schedule = [ChunkArrives (bytes_of ''gh'') True]\<rparr>"
      "[CallReplay, WriteMessage ReplaySend BinaryMessage (bytes_of ''abcdef'') True, CallSubscribe]"
      BinaryMessage "bytes_of ''gh''" True "[]"
      "[CallReplay, WriteMessage ReplaySend BinaryMessage (bytes_of ''abcdef'') True, CallSubscribe]"
      BinaryMessage "bytes_of ''gh''" True "[]"]
  by (simp add: ServeHTTP_def ServeHTTP_plain_def bridge_ServeHTTP_def bytes_of_def Let_def)

subsection \<open>Client-side subscriptions\<close>






























subsection \<open>The two backends of the session manager\<close>

text \<open>Claim C7, the code at the failing input. After a successful Start of session a followed
  by StopAll, the local manager's Get finds no handle, while the supervisor client's Get
  still returns one, although the supervisor itself no longer has the session: the
  client's StopAll leaves \<open>sessionDone\<close> as it is, where its Stop deletes the entry.\<close>

theorem backends_differ_after_StopAll:
  "Manager_Get ''a'' (run_local [OpStart ''a'' ''claude'' ''/tmp'' (SpawnOK 4242), OpStopAll]) = None
   \<and> Client_Get ''a'' (fst (run_client [OpStart ''a'' ''claude'' ''/tmp'' (SpawnOK 4242), OpStopAll]))
       = Some ''a''
   \<and> map_of (sh_sessions (snd (run_client [OpStart ''a'' ''claude'' ''/tmp'' (SpawnOK 4242), OpStopAll])))
        ''a'' = None
   \<and> Manager_Get ''a'' (run_local [OpStart ''a'' ''claude'' ''/tmp'' (SpawnOK 4242), OpStop ''a'']) = None
   \<and> Client_Get ''a'' (fst (run_client [OpStart ''a'' ''claude'' ''/tmp'' (SpawnOK 4242), OpStop ''a'']))
       = None"
proof -
  have d: "char_of (49 :: nat) = CHR ''1''" "char_of (50 :: nat) = CHR ''2''" by code_simp+
  have r: "nextReqID 1 = ''r1''" "nextReqID 2 = ''r2''"
    by (simp_all add: nextReqID_def decimal.simps [of 1] decimal.simps [of 2] d)
  have l1: "Manager_Get ''a'' (run_local [OpStart ''a'' ''claude'' ''/tmp'' (SpawnOK 4242), OpStopAll]) = None"
    by (simp add: run_local_def Manager_Get_def Manager_StopAll_def Manager_Stop_def
        Manager_Start_def NewManager_def map_put_def map_delete_def Let_def)
  have l2: "Manager_Get ''a'' (run_local [OpStart ''a'' ''claude'' ''/tmp'' (SpawnOK 4242), OpStop ''a'']) = None"
    by (simp add: run_local_def Manager_Get_def Manager_Stop_def
        Manager_Start_def NewManager_def map_put_def map_delete_def Let_def)
  let ?s1 = "snd (Client_Start ''a'' ''claude'' ''/tmp'' (SpawnOK 4242) (NewClient 0, client_connect 0 new_Shepherd))"
  have s1: "sessionDone (fst ?s1) = [(''a'', False)]" "reqCounter (fst ?s1) = 1"
      "\<not> c_conn_broken (fst ?s1)" "c_conn (fst ?s1) = 0"
      "sh_sessions (snd ?s1) = [(''a'', 0)]" "length (sh_written (snd ?s1)) = 1"
      "sh_heap (snd ?s1) 0 = Some (new_session ''a'')"
    by (simp_all add: Client_Start_def sendRequest_def handleControl_def handleStart_def
        sendResponse_def connWriter_writeControl_def NewClient_def client_connect_def
        new_Shepherd_def Request0_def Response0_def map_put_def map_delete_def Let_def r
        sh_written_def controls_simps
        cmdStart_def cmdPing_def evtStarted_def evtError_def)
  obtain c1 sh1 where cs1: "?s1 = (c1, sh1)" by (cases ?s1)
  note s1' = s1 [unfolded cs1 fst_conv snd_conv]
  have c2: "Client_Get ''a'' (fst (Client_StopAll (c1, sh1))) = Some ''a''"
    using s1' by (simp add: Client_StopAll_def sendRequest_def Client_Get_def Let_def
        split: list.splits)
  have sh2: "map_of (sh_sessions (snd (Client_StopAll (c1, sh1)))) ''a'' = None"
    using s1' by (simp add: Client_StopAll_def sendRequest_def handleControl_def stopAll_def
        sendResponse_def connWriter_writeControl_def update_session_def Request0_def Let_def
        cmdStopAll_def cmdPing_def cmdStart_def cmdStop_def cmdResize_def cmdReplay_def
        cmdSubscribe_def cmdList_def split: list.splits)
  have c3: "Client_Get ''a'' (fst (snd (Client_Stop ''a'' (c1, sh1)))) = None"
    using s1' by (simp add: Client_Stop_def sendRequest_def handleControl_def handleStop_def
        sendResponse_def connWriter_writeControl_def update_session_def Request0_def
        Response0_def Let_def r Client_Get_def map_delete_def evtStopDone_def evtError_def
        cmdPing_def cmdStart_def cmdStop_def sh_written_def controls_append controls_simps)
  show ?thesis
    using l1 l2 c2 sh2 c3 by (simp add: run_client_def cs1)
qed

subsection \<open>Gateway proxy without a tunnel\<close>

text \<open>Claim C8 (amended). While no tunnel session is connected, every request whose path starts
  with /api/ or /ws/ is answered at once, without a stream being opened and with the tunnel
  left as it was, whatever the rest of the environment would have done: the reply has
  status 502, is marked as plain text, and its body is the JSON text
  \<^verbatim>\<open>{"error":"gateway not connected to superposition"}\<close> followed by one line feed.\<close>

theorem proxy_no_tunnel_502:
  "session t = None \<Longrightarrow> prefix ''/api/'' (url_path r) \<or> prefix ''/ws/'' (url_path r) \<Longrightarrow>
     Proxy_ServeHTTP t env r =
       (Replied \<lparr>reply_status = 502,
                 reply_headers = [(''Content-Type'', ''text/plain; charset=utf-8''),
                                  (''X-Content-Type-Options'', ''nosniff'')],
                 reply_body = ''{\"error\":\"gateway not connected to superposition\"}'' @ [CHR 0x0A]\<rparr>,
        t)"
  by (auto simp add: Proxy_ServeHTTP_def proxyHTTP_def proxyWebSocket_def OpenStream_def
      StatusBadGateway_def http_Error_def Let_def)

theorem proxy_no_tunnel_502_witness:
  "session \<lparr>secret = ''s'', session = None\<rparr> = None
   \<and> prefix ''/api/'' (url_path \<lparr>url_path = ''/api/health'', header_upgrade = ''''\<rparr>)
   \<and> Proxy_ServeHTTP \<lparr>secret = ''s'', session = None\<rparr>
        \<lparr>write_ok = True, read_response = Some (200, []), is_hijacker = True, hijack_ok = True\<rparr>
        \<lparr>url_path = ''/api/health'', header_upgrade = ''''\<rparr>
      = (Replied \<lparr>reply_status = 502,
                 reply_headers = [(''Content-Type'', ''text/plain; charset=utf-8''),
                                  (''X-Content-Type-Options'', ''nosniff'')],
                 reply_body = ''{\"error\":\"gateway not connected to superposition\"}'' @ [CHR 0x0A]\<rparr>,
         \<lparr>secret = ''s'', session = None\<rparr>)"
  using proxy_no_tunnel_502 [of "\<lparr>secret = ''s'', session = None\<rparr>"
      "\<lparr>url_path = ''/api/health'', header_upgrade = ''''\<rparr>"
      "\<lparr>write_ok = True, read_response = Some (200, []), is_hijacker = True, hijack_ok = True\<rparr>"]
  by simp

text \<open>Claim C8 as stated fails: for GET /api/health with no tunnel connected the reply has
  status 502, but its body is not exactly the JSON text; it is one byte longer, the line
  feed that \<^verbatim>\<open>http.Error\<close> prints after the message.\<close>

theorem proxy_no_tunnel_body_counterexample:
  "fst (Proxy_ServeHTTP \<lparr>secret = ''s'', session = None\<rparr>
        \<lparr>write_ok = True, read_response = Some (200, []), is_hijacker = True, hijack_ok = True\<rparr>
        \<lparr>url_path = ''/api/health'', header_upgrade = ''''\<rparr>)
     = Replied (http_Error ''{\"error\":\"gateway not connected to superposition\"}'' 502)
   \<and> reply_status (http_Error ''{\"error\":\"gateway not connected to superposition\"}'' 502) = 502
   \<and> reply_body (http_Error ''{\"error\":\"gateway not connected to superposition\"}'' 502)
       \<noteq> ''{\"error\":\"gateway not connected to superposition\"}''
   \<and> length (reply_body (http_Error ''{\"error\":\"gateway not connected to superposition\"}'' 502))
       = length ''{\"error\":\"gateway not connected to superposition\"}'' + 1"
  by (simp add: Proxy_ServeHTTP_def proxyHTTP_def OpenStream_def StatusBadGateway_def
      http_Error_def Let_def)

subsection \<open>Reverse-tunnel reconnect delays\<close>

lemma connect_never_nil: "connect outcome \<noteq> None"
  by (cases outcome) simp_all

lemma Run_loop_eq:
  "0 < b \<Longrightarrow> b \<le> maxBackoff \<Longrightarrow>
     Run_loop b outcomes = map (\<lambda>i. min (b * 2 ^ i) maxBackoff) [0..<length outcomes]"
proof (induction outcomes arbitrary: b)
  case Nil
  show ?case by simp
next
  case (Cons outcome rest)
  obtain err where err: "connect outcome = Some err"
    using connect_never_nil [of outcome] by blast
  let ?b' = "min (b * 2) maxBackoff"
  have pos: "0 < ?b'" and le: "?b' \<le> maxBackoff"
    using Cons.prems by (simp_all add: maxBackoff_def Second_def)
  have step: "min (?b' * 2 ^ i) maxBackoff = min (b * 2 ^ Suc i) maxBackoff" for i
  proof (cases "b * 2 \<le> maxBackoff")
    case True
    then show ?thesis by (simp add: min_def mult.assoc)
  next
    case False
    have "(1::int) \<le> 2 ^ i" by simp
    then have a: "maxBackoff \<le> maxBackoff * 2 ^ i"
      using Cons.prems by (simp add: maxBackoff_def Second_def)
    have "b * 2 \<le> b * 2 ^ Suc i"
      using Cons.prems \<open>1 \<le> 2 ^ i\<close> by simp
    then have b: "maxBackoff \<le> b * 2 ^ Suc i" using False by linarith
    from False a b show ?thesis by (simp add: min_def)
  qed
  have "Run_loop b (outcome # rest) = b # Run_loop ?b' rest"
    by (simp add: err)
  also have "Run_loop ?b' rest = map (\<lambda>i. min (?b' * 2 ^ i) maxBackoff) [0..<length rest]"
    by (rule Cons.IH [OF pos le])
  also have "\<dots> = map (\<lambda>i. min (b * 2 ^ Suc i) maxBackoff) [0..<length rest]"
    by (simp only: step)
  also have "b # \<dots> = map (\<lambda>i. min (b * 2 ^ i) maxBackoff) [0..<length (outcome # rest)]"
    using Cons.prems by (simp add: upt_conv_Cons map_Suc_upt [symmetric] del: upt_Suc power_Suc)
  finally show ?case .
qed

text \<open>Claim C9, the code at the failing input. The delays start at 1 s and double up to 30 s,
  but no outcome of \<^verbatim>\<open>connect\<close> resets them: the i-th delay is min(2^i s, 30 s) whatever
  happened before, and after two failed dials, an established tunnel that the gateway then
  closes, and another failed dial, the client has slept 1 s, 2 s, 4 s and 8 s.\<close>

theorem tunnel_backoff_never_resets:
  "Run outcomes = map (\<lambda>i. min (Second * 2 ^ i) (30 * Second)) [0..<length outcomes]
   \<and> Run [DialFails, DialFails, Connected 3, DialFails]
       = [1 * Second, 2 * Second, 4 * Second, 8 * Second]
   \<and> Run (replicate 7 DialFails)
       = [1 * Second, 2 * Second, 4 * Second, 8 * Second, 16 * Second, 30 * Second, 30 * Second]"
proof -
  have "Run outcomes = map (\<lambda>i. min (Second * 2 ^ i) (30 * Second)) [0..<length outcomes]"
    unfolding Run_def using Run_loop_eq [of Second outcomes]
    by (simp add: maxBackoff_def Second_def)
  moreover have "Run [DialFails, DialFails, Connected 3, DialFails]
       = [1 * Second, 2 * Second, 4 * Second, 8 * Second]"
    by (simp add: Run_def maxBackoff_def Second_def)
  moreover have "Run (replicate 7 DialFails)
       = [1 * Second, 2 * Second, 4 * Second, 8 * Second, 16 * Second, 30 * Second, 30 * Second]"
    by (simp add: Run_def maxBackoff_def Second_def numeral_eq_Suc)
  ultimately show ?thesis by blast
qed

end
